theory Spec2Isabelle
  imports Main "HOL-Library.Signed_Division"
begin

section \<open>The C library functions the interpreter calls\<close>

text \<open>
  Strings are C strings: a \<open>string\<close> is the sequence of bytes before the terminating NUL.
  \<open>strcmp(a, b) == 0\<close> is equality of the two byte sequences.
\<close>

definition isspace :: "char \<Rightarrow> bool" where
  "isspace c = (c = CHR '' '' \<or> (9 \<le> (of_char c :: nat) \<and> (of_char c :: nat) \<le> 13))"

definition isdigit :: "char \<Rightarrow> bool" where
  "isdigit c = (48 \<le> (of_char c :: nat) \<and> (of_char c :: nat) \<le> 57)"

text \<open>
  A C \<open>int\<close> is 32 bits wide. Values are kept as HOL integers and every arithmetic result is
  brought back into the range by \<open>to_int32\<close> (two's complement wrap-around, which is what the
  usual compilers produce for the overflow that the C standard leaves undefined).
\<close>

definition to_int32 :: "int \<Rightarrow> int" where
  "to_int32 x = (x + 2147483648) mod 4294967296 - 2147483648"

fun digits_value :: "int \<Rightarrow> string \<Rightarrow> int" where
  "digits_value acc [] = acc"
| "digits_value acc (c # cs) =
     (if isdigit c then digits_value (acc * 10 + (int (of_char c) - 48)) cs else acc)"

text \<open>
  \<open>atoi\<close>: skip leading white space, read an optional sign, then the longest run of
  decimal digits; no digits give 0. A literal outside the range of \<open>int\<close> is undefined in C;
  the model keeps its low 32 bits.
\<close>

definition atoi :: "string \<Rightarrow> int" where
  "atoi s =
     (case dropWhile isspace s of
        [] \<Rightarrow> 0
      | c # cs \<Rightarrow>
          if c = CHR ''-'' then to_int32 (- digits_value 0 cs)
          else if c = CHR ''+'' then to_int32 (digits_value 0 cs)
          else to_int32 (digits_value 0 (c # cs)))"

text \<open>
  \<open>strtok(line, " ")\<close> called until it returns NULL: the maximal runs of bytes other than
  the space character, in order. No token is empty.
\<close>

function strtok :: "string \<Rightarrow> string list" where
  "strtok [] = []"
| "strtok (c # cs) =
     (if c = CHR '' '' then strtok cs
      else takeWhile (\<lambda>x. x \<noteq> CHR '' '') (c # cs) # strtok (dropWhile (\<lambda>x. x \<noteq> CHR '' '') cs))"
  by pat_completeness auto
termination
  by (relation "measure length") (auto simp: less_Suc_eq_le length_dropWhile_le)

section \<open>The data of the interpreter\<close>

definition MAXVARNAME :: nat where "MAXVARNAME = 10"
definition MAXVAR :: nat where "MAXVAR = 1000"

text \<open>
  The syntax flags, the values of \<open>command_type\<close>. The flag \<open>INT\<close> is written \<open>INT_cmd\<close>
  here, since \<open>INT\<close> is part of the notation of HOL.
\<close>

definition INT_cmd :: int where "INT_cmd = 1"
definition SET :: int where "SET = 2"
definition BEGIN :: int where "BEGIN = 3"
definition END :: int where "END = 4"
definition ADD :: int where "ADD = 5"
definition SUB :: int where "SUB = 6"
definition MULT :: int where "MULT = 7"
definition DIV :: int where "DIV = 8"
definition PRINT :: int where "PRINT = 9"
definition GOTO :: int where "GOTO = 10"
definition IF :: int where "IF = 11"

record Command =
  line_number :: int
  command_type :: int
  args :: "nat \<rightharpoonup> string"

text \<open>
  \<open>args\<close> is the array \<open>char *args[3]\<close>. A Command comes from \<open>malloc\<close>, so a slot that
  was never assigned holds an indeterminate pointer: that is \<open>None\<close>. \<open>Some s\<close> is a pointer
  to the copy of a token.

  The Runtime. \<open>commandsLen\<close> is the length of \<open>commands\<close>. The three arrays of \<open>MAXVAR\<close>
  elements are functions on the index; for \<open>intNames\<close>, \<open>None\<close> is again a pointer that was
  never assigned. \<open>display\<close> is not a field of the C structure: it collects the calls of
  \<open>print(row, col, str)\<close> (or of the \<open>printf\<close> that replaces it), oldest first.
\<close>

record Runtime =
  commands :: "Command list"
  intNamesLen :: nat
  intValuesLen :: nat
  intNames :: "nat \<rightharpoonup> string"
  intValues :: "nat \<Rightarrow> int"
  intValuesSet :: "nat \<Rightarrow> int"
  pc :: int
  begin_line :: int
  end_line :: int
  begin_flag :: int
  end_flag :: int
  display :: "(int \<times> int \<times> string) list"

definition commandsLen :: "Runtime \<Rightarrow> nat" where
  "commandsLen rt = length (commands rt)"

text \<open>
  What the code leaves indeterminate and then reads: the fields of the \<open>malloc\<close>ed Runtime
  and Command that are never initialised, and the value \<open>check_arguments\<close> hands back when
  it runs off its end without a \<open>return\<close>. They are parameters of the model.
\<close>

record indeterminate =
  heap_intValues :: "nat \<Rightarrow> int"
  heap_pc :: int
  heap_begin_line :: int
  heap_end_line :: int
  heap_begin_flag :: int
  heap_end_flag :: int
  heap_line_number :: int
  heap_command_type :: int
  ret_check_arguments :: int

text \<open>
  Where the C code has undefined behaviour and prints no diagnostic, the model stops with
  \<open>Undefined\<close> and the kind of fault.
\<close>

datatype fault =
    DivideByZero
  | DivideOverflow
  | InvalidPointer
  | OutOfBoundsRead
  | OutOfBoundsWrite

text \<open>
  The diagnostics of the code, under the names of the error taxonomy:
  \<^item> \<open>NotAnInteger\<close>: "is not an integer", "is not a positive integer";
  \<^item> \<open>UnknownCommand\<close>: "Invalid command";
  \<^item> \<open>WrongArity\<close>: "Incorrect number of arguments for command";
  \<^item> \<open>VariableNameTooLong\<close>: "Variable name ... is too long";
  \<^item> \<open>DuplicateVariable\<close>: "Variable ... is already defined";
  \<^item> \<open>UndefinedVariable\<close>: "Variable ... is not defined", "... is not defined";
  \<^item> \<open>InvalidOperator\<close>: "Invalid operator";
  \<^item> \<open>MissingBegin\<close>, \<open>MissingEnd\<close>: "No begin command", "No end command";
  \<^item> \<open>UnknownLineNumber\<close>: "Command at line ... not found";
  \<^item> \<open>UnsetVariable\<close>: "Variable ... is not set";
  \<^item> \<open>InvalidGotoTarget\<close>: "Invalid line number".

  \<open>NoReturn\<close> is a loop that never ends.
\<close>

datatype error =
    NotAnInteger
  | UnknownCommand
  | WrongArity
  | VariableNameTooLong
  | DuplicateVariable
  | UndefinedVariable
  | InvalidOperator
  | MissingBegin
  | MissingEnd
  | UnknownLineNumber
  | UnsetVariable
  | InvalidGotoTarget
  | Undefined fault
  | NoReturn

section \<open>Helper functions\<close>

text \<open>
  \<open>is_integer\<close>: -1 for a token that is not an integer, 0 for an unsigned one, 1 for one
  with a leading minus sign. The value 2 is never returned.
\<close>

definition is_integer :: "string \<Rightarrow> int" where
  "is_integer token =
     (case token of
        [] \<Rightarrow> 0
      | c # cs \<Rightarrow>
          if c = CHR ''-'' then (if list_all isdigit cs then 1 else - 1)
          else (if list_all isdigit (c # cs) then 0 else - 1))"

definition determine_command_type :: "string \<Rightarrow> int" where
  "determine_command_type token =
     (if token = ''int'' then INT_cmd
      else if token = ''set'' then SET
      else if token = ''begin'' then BEGIN
      else if token = ''end'' then END
      else if token = ''add'' then ADD
      else if token = ''sub'' then SUB
      else if token = ''mult'' then MULT
      else if token = ''div'' then DIV
      else if token = ''print'' then PRINT
      else if token = ''goto'' then GOTO
      else if token = ''if'' then IF
      else - 1)"

text \<open>
  \<open>check_arguments\<close> returns -1 from the branch of the command when the number of
  arguments is wrong, and from the \<open>default\<close> branch. On every other path it reaches its
  closing brace without a \<open>return\<close>: the caller then reads the indeterminate value \<open>r\<close>.
\<close>

definition check_arguments :: "int \<Rightarrow> int \<Rightarrow> int \<Rightarrow> int" where
  "check_arguments r ctype argc =
     (if ctype = INT_cmd then (if argc \<noteq> 1 then - 1 else r)
      else if ctype = SET then (if argc \<noteq> 2 then - 1 else r)
      else if ctype = BEGIN then (if argc \<noteq> 0 then - 1 else r)
      else if ctype = END then (if argc \<noteq> 0 then - 1 else r)
      else if ctype = ADD then (if argc \<noteq> 2 then - 1 else r)
      else if ctype = SUB then (if argc \<noteq> 2 then - 1 else r)
      else if ctype = MULT then (if argc \<noteq> 2 then - 1 else r)
      else if ctype = DIV then (if argc \<noteq> 2 then - 1 else r)
      else if ctype = PRINT then (if argc \<noteq> 3 then - 1 else r)
      else if ctype = GOTO then (if argc \<noteq> 1 then - 1 else r)
      else if ctype = IF then (if argc \<noteq> 3 then - 1 else r)
      else - 1)"

text \<open>
  \<open>is_defined\<close>: the index of the first of the \<open>intNamesLen\<close> registered names equal to
  \<open>arg\<close>; \<open>None\<close> stands for the return value -1. \<open>strcmp\<close> reads both strings, so an
  indeterminate pointer on either side is a fault.
\<close>

function is_defined_from :: "Runtime \<Rightarrow> string option \<Rightarrow> nat \<Rightarrow> error + nat option" where
  "is_defined_from rt arg i =
     (if i < intNamesLen rt then
        (case intNames rt i of
           None \<Rightarrow> Inl (Undefined InvalidPointer)
         | Some v \<Rightarrow>
            (case arg of
               None \<Rightarrow> Inl (Undefined InvalidPointer)
             | Some a \<Rightarrow> if v = a then Inr (Some i) else is_defined_from rt arg (Suc i)))
      else Inr None)"
  by pat_completeness auto
termination
  by (relation "measure (\<lambda>(rt, arg, i). intNamesLen rt - i)") auto

definition is_defined :: "Runtime \<Rightarrow> string option \<Rightarrow> error + nat option" where
  "is_defined rt arg = is_defined_from rt arg 0"

text \<open>
  \<open>is_set\<close>: the loop runs over the first \<open>intValuesLen\<close> slots of \<open>intNames\<close>, where
  \<open>intValuesLen\<close> counts the \<open>set\<close> commands executed so far. The first slot whose name is
  \<open>arg\<close> decides: its index when \<open>intValuesSet\<close> is 1 there, -1 (\<open>None\<close>) otherwise.
\<close>

function is_set_from :: "Runtime \<Rightarrow> string option \<Rightarrow> nat \<Rightarrow> error + nat option" where
  "is_set_from rt arg i =
     (if i < intValuesLen rt then
        (if MAXVAR \<le> i then Inl (Undefined OutOfBoundsRead)
         else
           (case is_defined rt (intNames rt i) of
              Inl e \<Rightarrow> Inl e
            | Inr None \<Rightarrow> is_set_from rt arg (Suc i)
            | Inr (Some d) \<Rightarrow>
               (case intNames rt i of
                  None \<Rightarrow> Inl (Undefined InvalidPointer)
                | Some v \<Rightarrow>
                   (case arg of
                      None \<Rightarrow> Inl (Undefined InvalidPointer)
                    | Some a \<Rightarrow>
                        if v = a then (if intValuesSet rt i = 1 then Inr (Some i) else Inr None)
                        else is_set_from rt arg (Suc i)))))
      else Inr None)"
  by pat_completeness auto
termination
  by (relation "measure (\<lambda>(rt, arg, i). intValuesLen rt - i)") auto

definition is_set :: "Runtime \<Rightarrow> string option \<Rightarrow> error + nat option" where
  "is_set rt arg = is_set_from rt arg 0"

text \<open>\<open>evaluate\<close>: 1 or 0 for the six operators, -1 for any other string.\<close>

definition evaluate :: "string \<Rightarrow> int \<Rightarrow> int \<Rightarrow> int" where
  "evaluate op val1 val2 =
     (if op = ''eq'' then (if val1 = val2 then 1 else 0)
      else if op = ''ne'' then (if val1 \<noteq> val2 then 1 else 0)
      else if op = ''gt'' then (if val1 > val2 then 1 else 0)
      else if op = ''gte'' then (if val1 \<ge> val2 then 1 else 0)
      else if op = ''lt'' then (if val1 < val2 then 1 else 0)
      else if op = ''lte'' then (if val1 \<le> val2 then 1 else 0)
      else - 1)"

text \<open>
  \<open>get_command_by_line_number\<close>: the index of the first command, in the order of the
  file, that carries the line number; \<open>None\<close> stands for -1.
\<close>

fun command_index_from :: "Command list \<Rightarrow> int \<Rightarrow> nat \<Rightarrow> nat option" where
  "command_index_from [] ln i = None"
| "command_index_from (c # cs) ln i =
     (if line_number c = ln then Some i else command_index_from cs ln (Suc i))"

definition get_command_by_line_number :: "Runtime \<Rightarrow> int \<Rightarrow> nat option" where
  "get_command_by_line_number rt ln = command_index_from (commands rt) ln 0"

section \<open>The parser\<close>

text \<open>
  \<open>args[i] = copy of token\<close>. The array has three slots; the branches of \<open>parse_arg\<close> for
  \<open>int\<close> and \<open>goto\<close> store at whatever index they are given.
\<close>

definition store_arg :: "Command \<Rightarrow> nat \<Rightarrow> string \<Rightarrow> error + Command" where
  "store_arg cmd i token =
     (if i < 3 then Inr (cmd\<lparr>args := (args cmd)(i \<mapsto> token)\<rparr>)
      else Inl (Undefined OutOfBoundsWrite))"

text \<open>
  \<open>parse_arg\<close> validates the argument \<open>token\<close> at position \<open>i\<close> of the command being
  built (\<open>runtime->commands[n]\<close>, here \<open>cmd\<close>) and stores a copy of it. \<open>Inl\<close> of a
  diagnostic is the return value -1, \<open>Inr\<close> the return value 1 with the command as it is then.
\<close>

definition parse_arg :: "Runtime \<Rightarrow> Command \<Rightarrow> string \<Rightarrow> nat \<Rightarrow> error + Command" where
  "parse_arg rt cmd token i =
     (if command_type cmd = INT_cmd then
        (if length token > MAXVARNAME + 1 then Inl VariableNameTooLong
         else
           (case is_defined rt (Some token) of
              Inl e \<Rightarrow> Inl e
            | Inr (Some d) \<Rightarrow> Inl DuplicateVariable
            | Inr None \<Rightarrow> store_arg cmd i token))
      else if command_type cmd = SET \<or> command_type cmd = ADD \<or> command_type cmd = SUB
              \<or> command_type cmd = MULT \<or> command_type cmd = DIV then
        (if i = 0 then
           (if length token > MAXVARNAME + 1 then Inl VariableNameTooLong
            else
              (case is_defined rt (Some token) of
                 Inl e \<Rightarrow> Inl e
               | Inr None \<Rightarrow> Inl UndefinedVariable
               | Inr (Some d) \<Rightarrow> store_arg cmd i token))
         else if i = 1 then
           (if is_integer token = - 1 then
              (case is_defined rt (Some token) of
                 Inl e \<Rightarrow> Inl e
               | Inr None \<Rightarrow> Inl UndefinedVariable
               | Inr (Some d) \<Rightarrow> store_arg cmd i token)
            else store_arg cmd i token)
         else Inr cmd)
      else if command_type cmd = PRINT then
        (if i = 0 then
           (if length token > MAXVARNAME + 1 then Inl VariableNameTooLong
            else
              (case is_defined rt (Some token) of
                 Inl e \<Rightarrow> Inl e
               | Inr None \<Rightarrow> Inl UndefinedVariable
               | Inr (Some d) \<Rightarrow> store_arg cmd i token))
         else if i = 1 then
           (if length token > MAXVARNAME + 1 then Inl VariableNameTooLong
            else
              (case is_defined rt (Some token) of
                 Inl e \<Rightarrow> Inl e
               | Inr None \<Rightarrow> Inl UndefinedVariable
               | Inr (Some d) \<Rightarrow> store_arg cmd i token))
         else if i = 2 then store_arg cmd i token
         else Inr cmd)
      else if command_type cmd = GOTO then
        (if is_integer token = - 1 then Inl NotAnInteger
         else if is_integer token = 2 then Inl NotAnInteger
         else store_arg cmd i token)
      else if command_type cmd = IF then
        (if i = 0 then
           (if length token > MAXVARNAME + 1 then Inl VariableNameTooLong
            else store_arg cmd i token)
         else if i = 1 then
           (if token = ''eq'' \<or> token = ''ne'' \<or> token = ''gt'' \<or> token = ''gte''
               \<or> token = ''lt'' \<or> token = ''lte'' then store_arg cmd i token
            else Inl InvalidOperator)
         else if i = 2 then
           (if length token > MAXVARNAME + 1 then Inl VariableNameTooLong
            else store_arg cmd i token)
         else Inr cmd)
      else Inl UnknownCommand)"

definition strip_newline :: "string \<Rightarrow> string" where
  "strip_newline token =
     (if token \<noteq> [] \<and> last token = CHR 0x0A then butlast token else token)"

text \<open>
  The token loop of \<open>parse_line\<close>, with \<open>i\<close> the number of tokens consumed so far.
  \<^item> A token that begins with a white-space character reaches \<open>continue\<close> before the
    next token is fetched, so the loop meets the same token again, for ever.
  \<^item> Token 0 is the line number, token 1 the keyword; \<open>begin\<close> and \<open>end\<close> record their
    line and raise their flag.
  \<^item> Every later token goes to \<open>parse_arg\<close>, and what \<open>parse_arg\<close> returns is not
    looked at: after a diagnostic the loop goes on with the command unchanged. Only a
    fault of \<open>parse_arg\<close> stops the model.
\<close>

fun parse_tokens ::
  "Runtime \<Rightarrow> Command \<Rightarrow> nat \<Rightarrow> string list \<Rightarrow> error + (Runtime \<times> Command \<times> nat)" where
  "parse_tokens rt cmd i [] = Inr (rt, cmd, i)"
| "parse_tokens rt cmd i (t # ts) =
     (let token = strip_newline t in
      if token \<noteq> [] \<and> isspace (hd token) then Inl NoReturn
      else if i = 0 then
        (if is_integer token = - 1 then Inl NotAnInteger
         else if is_integer token = 2 then Inl NotAnInteger
         else parse_tokens rt (cmd\<lparr>line_number := atoi token\<rparr>) (Suc i) ts)
      else if i = 1 then
        (if determine_command_type token = - 1 then Inl UnknownCommand
         else if determine_command_type token = BEGIN then
           parse_tokens (rt\<lparr>begin_line := line_number cmd, begin_flag := 1\<rparr>)
             (cmd\<lparr>command_type := determine_command_type token\<rparr>) (Suc i) ts
         else if determine_command_type token = END then
           parse_tokens (rt\<lparr>end_line := line_number cmd, end_flag := 1\<rparr>)
             (cmd\<lparr>command_type := determine_command_type token\<rparr>) (Suc i) ts
         else
           parse_tokens rt (cmd\<lparr>command_type := determine_command_type token\<rparr>) (Suc i) ts)
      else
        (case parse_arg rt cmd token (i - 2) of
           Inl (Undefined f) \<Rightarrow> Inl (Undefined f)
         | Inl e \<Rightarrow> parse_tokens rt cmd (Suc i) ts
         | Inr cmd' \<Rightarrow> parse_tokens rt cmd' (Suc i) ts))"

text \<open>
  \<open>parse_line\<close> fills the next Command of the array, which starts with the indeterminate
  contents of its \<open>malloc\<close>ed block, and appends it to the commands read so far. The
  failure of \<open>check_arguments\<close> is reported as \<open>WrongArity\<close> (its \<open>default\<close> branch prints
  "Invalid command" and returns the same -1). An \<open>int\<close> command then registers \<open>args[0]\<close>,
  assigned or not, in slot \<open>intNamesLen\<close> of \<open>intNames\<close>, an array of \<open>MAXVAR\<close> elements,
  without a test of the index.
\<close>

definition parse_line :: "indeterminate \<Rightarrow> Runtime \<Rightarrow> string \<Rightarrow> error + Runtime" where
  "parse_line u rt line =
     (case parse_tokens rt
             \<lparr>line_number = heap_line_number u, command_type = heap_command_type u,
              args = Map.empty\<rparr> 0 (strtok line) of
        Inl e \<Rightarrow> Inl e
      | Inr (rt', cmd, i) \<Rightarrow>
          if check_arguments (ret_check_arguments u) (command_type cmd) (int i - 2) = - 1
          then Inl WrongArity
          else if command_type cmd = INT_cmd then
            (if intNamesLen rt' < MAXVAR then
               Inr (rt'\<lparr>commands := commands rt' @ [cmd],
                        intNames := (intNames rt')(intNamesLen rt' := args cmd 0),
                        intNamesLen := Suc (intNamesLen rt')\<rparr>)
             else Inl (Undefined OutOfBoundsWrite))
          else Inr (rt'\<lparr>commands := commands rt' @ [cmd]\<rparr>))"

text \<open>
  \<open>build_runtime_from_file\<close>. The file is the list of its lines as \<open>getline\<close> returns
  them: each with its newline, the last one possibly without. A line whose first byte is
  the newline is skipped. The Runtime is \<open>malloc\<close>ed: the code sets \<open>intNamesLen\<close>,
  \<open>intValuesLen\<close>, \<open>commandsLen\<close> and the \<open>MAXVAR\<close> elements of \<open>intValuesSet\<close>, and nothing else.
  \<open>Inl\<close> is the return value NULL.
\<close>

definition new_runtime :: "indeterminate \<Rightarrow> Runtime" where
  "new_runtime u =
     \<lparr>commands = [], intNamesLen = 0, intValuesLen = 0, intNames = Map.empty,
      intValues = heap_intValues u, intValuesSet = (\<lambda>i. 0),
      pc = heap_pc u, begin_line = heap_begin_line u, end_line = heap_end_line u,
      begin_flag = heap_begin_flag u, end_flag = heap_end_flag u, display = []\<rparr>"

fun parse_lines :: "indeterminate \<Rightarrow> Runtime \<Rightarrow> string list \<Rightarrow> error + Runtime" where
  "parse_lines u rt [] = Inr rt"
| "parse_lines u rt (line # rest) =
     (if take 1 line = [CHR 0x0A] then parse_lines u rt rest
      else
        (case parse_line u rt line of
           Inl e \<Rightarrow> Inl e
         | Inr rt' \<Rightarrow> parse_lines u rt' rest))"

definition build_runtime_from_file :: "indeterminate \<Rightarrow> string list \<Rightarrow> error + Runtime" where
  "build_runtime_from_file u file =
     (case parse_lines u (new_runtime u) file of
        Inl e \<Rightarrow> Inl e
      | Inr rt \<Rightarrow>
          if begin_flag rt = 0 then Inl MissingBegin
          else if end_flag rt = 0 then Inl MissingEnd
          else Inr rt)"

section \<open>The execution engine\<close>

text \<open>
  A diagnostic that prints the string \<open>s\<close> with \<open>%s\<close> reads it: with an indeterminate
  pointer this is a fault, not the diagnostic.
\<close>

definition diagnostic :: "string option \<Rightarrow> error \<Rightarrow> error" where
  "diagnostic s e = (case s of None \<Rightarrow> Undefined InvalidPointer | Some x \<Rightarrow> e)"

text \<open>
  The value of one side of an \<open>if\<close>: the stored value when \<open>is_set\<close> finds the token,
  otherwise the token read as an integer literal by \<open>atoi\<close> (the test \<open>is_int == 2\<close> for
  a second negation is there in the code; \<open>is_integer\<close> never returns 2).
\<close>

definition if_operand :: "Runtime \<Rightarrow> string option \<Rightarrow> error + int" where
  "if_operand rt arg =
     (case is_set rt arg of
        Inl e \<Rightarrow> Inl e
      | Inr (Some index) \<Rightarrow> Inr (intValues rt index)
      | Inr None \<Rightarrow>
         (case arg of
            None \<Rightarrow> Inl (Undefined InvalidPointer)
          | Some token \<Rightarrow>
              if is_integer token = - 1 then Inl UndefinedVariable
              else if is_integer token = 2 then Inr (to_int32 (- atoi token))
              else Inr (atoi token)))"

text \<open>
  \<open>a / b\<close> on \<open>int\<close>: undefined for \<open>b = 0\<close> and for \<open>INT_MIN / -1\<close>, otherwise the quotient
  truncated towards zero. The code divides without a test of the divisor.
\<close>

definition c_divide :: "int \<Rightarrow> int \<Rightarrow> error + int" where
  "c_divide a b =
     (if b = 0 then Inl (Undefined DivideByZero)
      else if a = - 2147483648 \<and> b = - 1 then Inl (Undefined DivideOverflow)
      else Inr (a sdiv b))"

text \<open>
  The \<open>switch\<close> of \<open>execute_runtime\<close> on the command at index \<open>command_id\<close>: the Runtime after
  the command and \<open>next_idx\<close>, which starts as \<open>command_id + 1\<close>. \<open>Inl\<close> of a diagnostic is
  the \<open>return\<close> after the message.

  In \<open>add\<close>, \<open>sub\<close>, \<open>mult\<close> and \<open>div\<close> the code computes \<open>is_integer\<close> of the value token
  and a local \<open>val\<close>, and then does not use them: the operand of the arithmetic is
  \<open>atoi(args[1])\<close>.
\<close>

definition execute_command :: "Runtime \<Rightarrow> nat \<Rightarrow> error + (Runtime \<times> nat)" where
  "execute_command rt command_id =
     (let cur_command = commands rt ! command_id;
          next_idx = command_id + 1;
          ctype = command_type cur_command
      in
      if ctype = INT_cmd then Inr (rt, next_idx)
      else if ctype = SET then
        (case is_defined rt (args cur_command 0) of
           Inl e \<Rightarrow> Inl e
         | Inr None \<Rightarrow> Inl (diagnostic (args cur_command 0) UndefinedVariable)
         | Inr (Some index) \<Rightarrow>
            (case args cur_command 1 of
               None \<Rightarrow> Inl (Undefined InvalidPointer)
             | Some token \<Rightarrow>
                 Inr (rt\<lparr>intValues := (intValues rt)(index := atoi token),
                         intValuesSet := (intValuesSet rt)(index := 1),
                         intValuesLen := intValuesLen rt + 1\<rparr>, next_idx)))
      else if ctype = BEGIN then Inr (rt, next_idx)
      else if ctype = END then Inr (rt, next_idx)
      else if ctype = ADD then
        (case is_set rt (args cur_command 0) of
           Inl e \<Rightarrow> Inl e
         | Inr None \<Rightarrow> Inl (diagnostic (args cur_command 0) UnsetVariable)
         | Inr (Some index) \<Rightarrow>
            (case args cur_command 1 of
               None \<Rightarrow> Inl (Undefined InvalidPointer)
             | Some token \<Rightarrow>
                 Inr (rt\<lparr>intValues :=
                           (intValues rt)(index := to_int32 (intValues rt index + atoi token))\<rparr>,
                      next_idx)))
      else if ctype = SUB then
        (case is_set rt (args cur_command 0) of
           Inl e \<Rightarrow> Inl e
         | Inr None \<Rightarrow> Inl (diagnostic (args cur_command 0) UnsetVariable)
         | Inr (Some index) \<Rightarrow>
            (case args cur_command 1 of
               None \<Rightarrow> Inl (Undefined InvalidPointer)
             | Some token \<Rightarrow>
                 Inr (rt\<lparr>intValues :=
                           (intValues rt)(index := to_int32 (intValues rt index - atoi token))\<rparr>,
                      next_idx)))
      else if ctype = MULT then
        (case is_set rt (args cur_command 0) of
           Inl e \<Rightarrow> Inl e
         | Inr None \<Rightarrow> Inl (diagnostic (args cur_command 0) UnsetVariable)
         | Inr (Some index) \<Rightarrow>
            (case args cur_command 1 of
               None \<Rightarrow> Inl (Undefined InvalidPointer)
             | Some token \<Rightarrow>
                 Inr (rt\<lparr>intValues :=
                           (intValues rt)(index := to_int32 (intValues rt index * atoi token))\<rparr>,
                      next_idx)))
      else if ctype = DIV then
        (case is_set rt (args cur_command 0) of
           Inl e \<Rightarrow> Inl e
         | Inr None \<Rightarrow> Inl (diagnostic (args cur_command 0) UnsetVariable)
         | Inr (Some index) \<Rightarrow>
            (case args cur_command 1 of
               None \<Rightarrow> Inl (Undefined InvalidPointer)
             | Some token \<Rightarrow>
                (case c_divide (intValues rt index) (atoi token) of
                   Inl e \<Rightarrow> Inl e
                 | Inr q \<Rightarrow> Inr (rt\<lparr>intValues := (intValues rt)(index := q)\<rparr>, next_idx))))
      else if ctype = PRINT then
        (case is_set rt (args cur_command 0) of
           Inl e \<Rightarrow> Inl e
         | Inr None \<Rightarrow> Inl (diagnostic (args cur_command 0) UnsetVariable)
         | Inr (Some index1) \<Rightarrow>
            (case is_set rt (args cur_command 1) of
               Inl e \<Rightarrow> Inl e
             | Inr None \<Rightarrow> Inl (diagnostic (args cur_command 1) UnsetVariable)
             | Inr (Some index2) \<Rightarrow>
                (case args cur_command 2 of
                   None \<Rightarrow> Inl (Undefined InvalidPointer)
                 | Some str \<Rightarrow>
                     Inr (rt\<lparr>display :=
                               display rt @ [(intValues rt index1, intValues rt index2, str)]\<rparr>,
                          next_idx))))
      else if ctype = GOTO then
        (case args cur_command 0 of
           None \<Rightarrow> Inl (Undefined InvalidPointer)
         | Some token \<Rightarrow>
             if atoi token < begin_line rt \<or> atoi token > end_line rt then Inl InvalidGotoTarget
             else
               (case get_command_by_line_number rt (atoi token) of
                  None \<Rightarrow> Inl UnknownLineNumber
                | Some target \<Rightarrow> Inr (rt, target)))
      else if ctype = IF then
        (case if_operand rt (args cur_command 0) of
           Inl e \<Rightarrow> Inl e
         | Inr val1 \<Rightarrow>
            (case if_operand rt (args cur_command 2) of
               Inl e \<Rightarrow> Inl e
             | Inr val2 \<Rightarrow>
                (case args cur_command 1 of
                   None \<Rightarrow> Inl (Undefined InvalidPointer)
                 | Some op \<Rightarrow>
                     if evaluate op val1 val2 = 0 then Inr (rt, next_idx + 1)
                     else Inr (rt, next_idx))))
      else Inr (rt, next_idx))"

text \<open>
  One pass through the body of the \<open>while\<close> loop: find the command that carries the line
  number \<open>pc\<close>, execute it, and load \<open>pc\<close> from \<open>commands[next_idx]->line_number\<close>. The code
  reads that element without comparing \<open>next_idx\<close> with \<open>commandsLen\<close>.
\<close>

definition step :: "Runtime \<Rightarrow> error + Runtime" where
  "step rt =
     (case get_command_by_line_number rt (pc rt) of
        None \<Rightarrow> Inl UnknownLineNumber
      | Some command_id \<Rightarrow>
         (case execute_command rt command_id of
            Inl e \<Rightarrow> Inl e
          | Inr (rt', next_idx) \<Rightarrow>
              if next_idx < commandsLen rt'
              then Inr (rt'\<lparr>pc := line_number (commands rt' ! next_idx)\<rparr>)
              else Inl (Undefined OutOfBoundsRead)))"

text \<open>
  The loop \<open>while (runtime->pc < runtime->end_line)\<close> can run for ever (a \<open>goto\<close> backwards),
  so it is given fuel: \<open>None\<close> when the fuel runs out before the loop ends, \<open>Some (Inl e)\<close>
  when a pass stops with \<open>e\<close>, \<open>Some (Inr rt)\<close> when the loop ends with the Runtime \<open>rt\<close>.
\<close>

fun run :: "nat \<Rightarrow> Runtime \<Rightarrow> (error + Runtime) option" where
  "run 0 rt = (if pc rt < end_line rt then None else Some (Inr rt))"
| "run (Suc k) rt =
     (if pc rt < end_line rt then
        (case step rt of
           Inl e \<Rightarrow> Some (Inl e)
         | Inr rt' \<Rightarrow> run k rt')
      else Some (Inr rt))"

definition execute_runtime :: "nat \<Rightarrow> Runtime \<Rightarrow> (error + Runtime) option" where
  "execute_runtime fuel rt = run fuel (rt\<lparr>pc := begin_line rt\<rparr>)"

text \<open>\<open>main\<close>: build the Runtime from the file and, when there is one, execute it.\<close>

definition main :: "indeterminate \<Rightarrow> nat \<Rightarrow> string list \<Rightarrow> (error + Runtime) option" where
  "main u fuel file =
     (case build_runtime_from_file u file of
        Inl e \<Rightarrow> Some (Inl e)
      | Inr rt \<Rightarrow> execute_runtime fuel rt)"

section \<open>Concrete inputs\<close>

text \<open>
  \<open>zeroed\<close>: every indeterminate word is 0, as in a block taken from fresh, zero-filled
  memory, and \<open>check_arguments\<close> hands back 0 when it runs off its end.
\<close>

definition zeroed :: indeterminate where
  "zeroed =
     \<lparr>heap_intValues = (\<lambda>i. 0), heap_pc = 0, heap_begin_line = 0, heap_end_line = 0,
      heap_begin_flag = 0, heap_end_flag = 0, heap_line_number = 0, heap_command_type = 0,
      ret_check_arguments = 0\<rparr>"

text \<open>
  What a run ended with: the error of \<open>Some (Inl e)\<close>, the Runtime of \<open>Some (Inr rt)\<close>.
\<close>

definition halted_with :: "(error + Runtime) option \<Rightarrow> error option" where
  "halted_with r = (case r of Some (Inl e) \<Rightarrow> Some e | _ \<Rightarrow> None)"

definition finished :: "(error + Runtime) option \<Rightarrow> Runtime option" where
  "finished r = (case r of Some (Inr rt) \<Rightarrow> Some rt | _ \<Rightarrow> None)"

text \<open>
  The Runtime of a file on entry to the loop of \<open>execute_runtime\<close>, built with \<open>zeroed\<close>
  (the empty Runtime when the build fails).
\<close>

definition loaded :: "string list \<Rightarrow> Runtime" where
  "loaded file =
     (case build_runtime_from_file zeroed file of
        Inr rt \<Rightarrow> rt\<lparr>pc := begin_line rt\<rparr>
      | Inl e \<Rightarrow> new_runtime zeroed)"

text \<open>The Runtime after \<open>k\<close> further passes of the loop, up to the first pass that fails.\<close>

fun passes :: "nat \<Rightarrow> Runtime \<Rightarrow> Runtime" where
  "passes 0 rt = rt"
| "passes (Suc k) rt = (case step rt of Inr rt' \<Rightarrow> passes k rt' | Inl e \<Rightarrow> rt)"

definition div_zero_file :: "string list" where
  "div_zero_file =
     [''1 int x\<newline>'', ''2 begin\<newline>'', ''3 set x 6\<newline>'', ''4 div x 0\<newline>'',
      ''5 end\<newline>'']"

definition set_second_file :: "string list" where
  "set_second_file =
     [''1 int a\<newline>'', ''2 int b\<newline>'', ''3 begin\<newline>'', ''4 set b 1\<newline>'',
      ''5 add b 1\<newline>'', ''6 end\<newline>'']"

definition add_variable_file :: "string list" where
  "add_variable_file =
     [''1 int x\<newline>'', ''2 int y\<newline>'', ''3 begin\<newline>'', ''4 set x 5\<newline>'',
      ''5 set y 7\<newline>'', ''6 add x y\<newline>'', ''7 end\<newline>'']"

definition if_before_end_file :: "string list" where
  "if_before_end_file = [''1 begin\<newline>'', ''2 if 1 eq 2\<newline>'', ''3 end\<newline>'']"

definition duplicate_int_file :: "string list" where
  "duplicate_int_file =
     [''1 begin\<newline>'', ''2 int x\<newline>'', ''3 int x\<newline>'', ''4 end\<newline>'']"

definition undefined_set_file :: "string list" where
  "undefined_set_file = [''1 begin\<newline>'', ''2 set x 5\<newline>'', ''3 end\<newline>'']"

definition bad_operator_file :: "string list" where
  "bad_operator_file = [''1 begin\<newline>'', ''2 if 1 is 2\<newline>'', ''3 end\<newline>'']"

definition long_name_file :: "string list" where
  "long_name_file = [''1 begin\<newline>'', ''2 int abcdefghijkl\<newline>'', ''3 end\<newline>'']"

definition bad_goto_file :: "string list" where
  "bad_goto_file = [''1 begin\<newline>'', ''2 goto there\<newline>'', ''3 end\<newline>'']"

definition eleven_chars_file :: "string list" where
  "eleven_chars_file = [''1 begin\<newline>'', ''2 int abcdefghijk\<newline>'', ''3 end\<newline>'']"

definition no_begin_file :: "string list" where
  "no_begin_file = [''1 int x\<newline>'', ''2 end\<newline>'']"

definition no_end_file :: "string list" where
  "no_end_file = [''1 begin\<newline>'', ''2 int x\<newline>'']"

text \<open>The outcome of a build: the Runtime returned, or the diagnostic with which it stops.\<close>

definition built :: "error + Runtime \<Rightarrow> Runtime option" where
  "built r = (case r of Inr rt \<Rightarrow> Some rt | Inl e \<Rightarrow> None)"

definition refused :: "error + Runtime \<Rightarrow> error option" where
  "refused r = (case r of Inr rt \<Rightarrow> None | Inl e \<Rightarrow> Some e)"

definition out_of_order_file :: "string list" where
  "out_of_order_file =
     [''1 begin\<newline>'', ''5 int x\<newline>'', ''3 set x 7\<newline>'', ''4 add x 1\<newline>'',
      ''9 end\<newline>'']"

definition if_false_file :: "string list" where
  "if_false_file =
     [''1 int a\<newline>'', ''2 begin\<newline>'', ''3 set a 4\<newline>'', ''4 if a eq 3\<newline>'',
      ''5 add a 10\<newline>'', ''6 add a 100\<newline>'', ''7 end\<newline>'']"

definition if_true_file :: "string list" where
  "if_true_file =
     [''1 int a\<newline>'', ''2 begin\<newline>'', ''3 set a 3\<newline>'', ''4 if a eq 3\<newline>'',
      ''5 add a 10\<newline>'', ''6 add a 100\<newline>'', ''7 end\<newline>'']"

definition early_end_file :: "string list" where
  "early_end_file =
     [''1 begin\<newline>'', ''5 int x\<newline>'', ''9 set x 7\<newline>'', ''4 add x 1\<newline>'',
      ''8 end\<newline>'']"

definition repeated_line_file :: "string list" where
  "repeated_line_file =
     [''1 int x\<newline>'', ''2 begin\<newline>'', ''3 set x 1\<newline>'', ''3 set x 2\<newline>'',
      ''4 add x 10\<newline>'', ''5 end\<newline>'']"

definition repeated_after_if_file :: "string list" where
  "repeated_after_if_file =
     [''1 int a\<newline>'', ''2 begin\<newline>'', ''3 set a 4\<newline>'', ''4 if a eq 3\<newline>'',
      ''5 add a 10\<newline>'', ''5 add a 100\<newline>'', ''7 end\<newline>'']"

text \<open>
  A file of declarations: line \<open>k\<close> is \<open>kkkk int vkkkk\<close>, with \<open>k\<close> written in four
  decimal digits, so the first 10000 lines declare different variables.
\<close>

fun decimal_digits :: "nat \<Rightarrow> nat \<Rightarrow> string" where
  "decimal_digits 0 n = []"
| "decimal_digits (Suc w) n = decimal_digits w (n div 10) @ [char_of (48 + n mod 10)]"

definition var_name :: "nat \<Rightarrow> string" where
  "var_name k = CHR ''v'' # decimal_digits 4 k"

definition int_line :: "nat \<Rightarrow> string" where
  "int_line k = decimal_digits 4 k @ '' int '' @ var_name k @ ''\<newline>''"

definition int_lines :: "nat \<Rightarrow> string list" where
  "int_lines n = map int_line [0..<n]"

section \<open>Auxiliary facts\<close>

lemmas syntax_flags =
  INT_cmd_def SET_def BEGIN_def END_def ADD_def SUB_def MULT_def DIV_def PRINT_def GOTO_def IF_def

subsection \<open>The search for a line number and the default next index\<close>

lemma command_index_from_first:
  "k < length cs \<Longrightarrow> line_number (cs ! k) = ln \<Longrightarrow> (\<forall>j<k. line_number (cs ! j) \<noteq> ln)
     \<Longrightarrow> command_index_from cs ln i = Some (i + k)"
proof (induction cs arbitrary: i k)
  case Nil
  then show ?case by simp
next
  case (Cons c cs)
  show ?case
  proof (cases k)
    case 0
    with Cons.prems show ?thesis by simp
  next
    case (Suc m)
    from Cons.prems Suc have hd: "line_number c \<noteq> ln" by auto
    from Cons.prems Suc have "m < length cs" "line_number (cs ! m) = ln"
      "\<forall>j<m. line_number (cs ! j) \<noteq> ln" by auto
    from Cons.IH[OF this] have "command_index_from cs ln (Suc i) = Some (Suc i + m)" .
    with hd Suc show ?thesis by simp
  qed
qed

lemma execute_command_fallthrough:
  assumes "execute_command rt command_id = Inr (rt', next_idx)"
      and "command_type (commands rt ! command_id) \<noteq> GOTO"
      and "command_type (commands rt ! command_id) = IF \<longrightarrow>
             (\<forall>val1 val2 op.
                if_operand rt (args (commands rt ! command_id) 0) = Inr val1 \<longrightarrow>
                if_operand rt (args (commands rt ! command_id) 2) = Inr val2 \<longrightarrow>
                args (commands rt ! command_id) 1 = Some op \<longrightarrow> evaluate op val1 val2 \<noteq> 0)"
  shows "next_idx = command_id + 1 \<and> commands rt' = commands rt"
  using assms
  unfolding execute_command_def Let_def
  by (auto split: if_splits sum.splits option.splits)

lemma command_index_from_Some:
  "command_index_from cs ln i = Some n \<Longrightarrow>
     i \<le> n \<and> n - i < length cs \<and> line_number (cs ! (n - i)) = ln"
proof (induction cs arbitrary: i)
  case Nil
  then show ?case by simp
next
  case (Cons c cs)
  show ?case
  proof (cases "line_number c = ln")
    case True
    with Cons.prems show ?thesis by simp
  next
    case False
    with Cons.prems have "command_index_from cs ln (Suc i) = Some n" by simp
    from Cons.IH[OF this]
    have "Suc i \<le> n" "n - Suc i < length cs" "line_number (cs ! (n - Suc i)) = ln" by auto
    moreover from \<open>Suc i \<le> n\<close> have "n - i = Suc (n - Suc i)" by simp
    ultimately show ?thesis by simp
  qed
qed

lemma execute_command_preserves:
  assumes "execute_command rt command_id = Inr (rt', next_idx)"
  shows "commands rt' = commands rt \<and> end_line rt' = end_line rt"
  using assms
  unfolding execute_command_def Let_def
  by (auto split: if_splits sum.splits option.splits)

lemma run_ends: "\<not> pc rt < end_line rt \<Longrightarrow> run fuel rt = Some (Inr rt)"
  by (cases fuel) simp_all

subsection \<open>Parsing a file of declarations\<close>

lemma length_decimal_digits: "length (decimal_digits w n) = w"
  by (induction w arbitrary: n) auto

lemma decimal_digits_chars:
  "c \<in> set (decimal_digits w n) \<Longrightarrow> isdigit c"
proof (induction w arbitrary: n)
  case 0
  then show ?case by simp
next
  case (Suc w)
  have "n mod 10 < 10" by simp
  then have "isdigit (char_of (48 + n mod 10))"
    unfolding isdigit_def by (simp add: mod_if)
  with Suc show ?case by auto
qed

lemma isdigit_not_space: "isdigit c \<Longrightarrow> c \<noteq> CHR '' '' \<and> c \<noteq> CHR 0x0A"
  by (auto simp: isdigit_def)

lemma decimal_digits_inj:
  "decimal_digits w n = decimal_digits w m \<Longrightarrow> n mod 10 ^ w = m mod 10 ^ w"
proof (induction w arbitrary: n m)
  case 0
  then show ?case by simp
next
  case (Suc w)
  from Suc.prems have a: "decimal_digits w (n div 10) = decimal_digits w (m div 10)"
    and b: "(char_of (48 + n mod 10) :: char) = char_of (48 + m mod 10)" by simp_all
  from b have "(of_char (char_of (48 + n mod 10) :: char) :: nat)
                 = of_char (char_of (48 + m mod 10) :: char)"
    by simp
  then have e: "(48 + n mod 10) mod 256 = (48 + m mod 10) mod 256"
    by (simp only: of_char_of)
  have "n mod 10 < 10" "m mod 10 < 10" by simp_all
  then have "48 + n mod 10 < 256" "48 + m mod 10 < 256" by linarith+
  with e have c: "n mod 10 = m mod 10" by simp
  from Suc.IH[OF a] have d: "(n div 10) mod 10 ^ w = (m div 10) mod 10 ^ w" .
  have "n mod 10 ^ Suc w = 10 * ((n div 10) mod 10 ^ w) + n mod 10"
    by (simp add: mod_mult2_eq)
  moreover have "m mod 10 ^ Suc w = 10 * ((m div 10) mod 10 ^ w) + m mod 10"
    by (simp add: mod_mult2_eq)
  ultimately show ?case using c d by simp
qed

lemma strtok_token:
  assumes "t \<noteq> []" and "\<forall>c\<in>set t. c \<noteq> CHR '' ''"
  shows "strtok (t @ CHR '' '' # rest) = t # strtok rest"
proof -
  from assms(1) obtain c cs where t: "t = c # cs" by (cases t) auto
  with assms(2) have c: "c \<noteq> CHR '' ''" and cs: "\<forall>x\<in>set cs. x \<noteq> CHR '' ''" by auto
  have w: "takeWhile (\<lambda>x. x \<noteq> CHR '' '') (cs @ CHR '' '' # rest) = cs"
    "dropWhile (\<lambda>x. x \<noteq> CHR '' '') (cs @ CHR '' '' # rest) = CHR '' '' # rest"
    using cs by simp_all
  show ?thesis using c by (simp add: t w)
qed

lemma strtok_last_token:
  assumes "t \<noteq> []" and "\<forall>c\<in>set t. c \<noteq> CHR '' ''"
  shows "strtok t = [t]"
proof -
  from assms(1) obtain c cs where t: "t = c # cs" by (cases t) auto
  with assms(2) have c: "c \<noteq> CHR '' ''" and cs: "\<forall>x\<in>set cs. x \<noteq> CHR '' ''" by auto
  have w: "takeWhile (\<lambda>x. x \<noteq> CHR '' '') cs = cs" "dropWhile (\<lambda>x. x \<noteq> CHR '' '') cs = []"
    using cs by simp_all
  show ?thesis using c by (simp add: t w)
qed

lemma decimal_digits_no_space: "\<forall>c\<in>set (decimal_digits w n). c \<noteq> CHR '' ''"
  using decimal_digits_chars isdigit_not_space by blast

lemma strtok_int_line:
  "strtok (int_line k) = [decimal_digits 4 k, ''int'', var_name k @ ''\<newline>'']"
proof -
  have d: "decimal_digits 4 k \<noteq> []"
    using length_decimal_digits[of 4 k] by auto
  have l: "strtok (var_name k @ ''\<newline>'') = [var_name k @ ''\<newline>'']"
    by (rule strtok_last_token) (auto simp: var_name_def dest: decimal_digits_chars isdigit_not_space)
  have "strtok (''int'' @ CHR '' '' # var_name k @ ''\<newline>'') = ''int'' # strtok (var_name k @ ''\<newline>'')"
    by (rule strtok_token) auto
  moreover have "strtok (decimal_digits 4 k @ CHR '' '' # ''int'' @ CHR '' '' # var_name k @ ''\<newline>'')
        = decimal_digits 4 k # strtok (''int'' @ CHR '' '' # var_name k @ ''\<newline>'')"
    by (rule strtok_token[OF d decimal_digits_no_space])
  ultimately show ?thesis using l by (simp add: int_line_def)
qed

lemma is_integer_decimal_digits: "is_integer (decimal_digits 4 k) = 0"
proof -
  obtain c cs where e: "decimal_digits 4 k = c # cs"
    using length_decimal_digits[of 4 k] by (cases "decimal_digits 4 k") auto
  have a: "list_all isdigit (decimal_digits 4 k)"
    by (simp add: list_all_iff decimal_digits_chars)
  have "isdigit c" using decimal_digits_chars[of c 4 k] e by simp
  then have "c \<noteq> CHR ''-''" by (auto simp: isdigit_def)
  with a e show ?thesis by (simp add: is_integer_def)
qed

lemma isdigit_not_isspace: "isdigit c \<Longrightarrow> \<not> isspace c"
  by (auto simp: isdigit_def isspace_def)

lemma strip_newline_decimal_digits: "strip_newline (decimal_digits 4 k) = decimal_digits 4 k"
proof -
  have "decimal_digits 4 k \<noteq> []" using length_decimal_digits[of 4 k] by auto
  then have "last (decimal_digits 4 k) \<in> set (decimal_digits 4 k)" by simp
  then have "last (decimal_digits 4 k) \<noteq> CHR 0x0A"
    using decimal_digits_chars isdigit_not_space by blast
  then show ?thesis by (simp add: strip_newline_def)
qed

lemma parse_line_int_line:
  assumes "is_defined rt (Some (var_name k)) = Inr None"
      and "ret_check_arguments u \<noteq> - 1"
  shows "parse_line u rt (int_line k) =
           (if intNamesLen rt < MAXVAR then
              Inr (rt\<lparr>commands := commands rt @
                         [\<lparr>line_number = atoi (decimal_digits 4 k), command_type = INT_cmd,
                           args = [0 \<mapsto> var_name k]\<rparr>],
                       intNames := (intNames rt)(intNamesLen rt \<mapsto> var_name k),
                       intNamesLen := Suc (intNamesLen rt)\<rparr>)
            else Inl (Undefined OutOfBoundsWrite))"
proof -
  have d: "decimal_digits 4 k \<noteq> []" using length_decimal_digits[of 4 k] by auto
  then have "hd (decimal_digits 4 k) \<in> set (decimal_digits 4 k)" by simp
  then have s0: "\<not> isspace (hd (decimal_digits 4 k))"
    using decimal_digits_chars isdigit_not_isspace by blast
  have t1: "strip_newline ''int'' = ''int''" "determine_command_type ''int'' = INT_cmd"
    by code_simp+
  have t2: "strip_newline (var_name k @ ''\<newline>'') = var_name k"
    by (simp add: strip_newline_def var_name_def)
  have sp: "\<not> isspace CHR ''i''" "\<not> isspace CHR ''v''" by code_simp+
  have len: "length (var_name k) = 5" by (simp add: var_name_def length_decimal_digits)
  have pa: "parse_arg rt \<lparr>line_number = l, command_type = INT_cmd, args = Map.empty\<rparr> (var_name k) 0
             = Inr \<lparr>line_number = l, command_type = INT_cmd, args = [0 \<mapsto> var_name k]\<rparr>" for l
    using assms(1) by (simp add: parse_arg_def store_arg_def MAXVARNAME_def len)
  have hdv: "hd (var_name k) = CHR ''v''" "var_name k \<noteq> []" by (simp_all add: var_name_def)
  have "parse_tokens rt \<lparr>line_number = heap_line_number u, command_type = heap_command_type u,
              args = Map.empty\<rparr> 0 [decimal_digits 4 k, ''int'', var_name k @ ''\<newline>'']
        = Inr (rt, \<lparr>line_number = atoi (decimal_digits 4 k), command_type = INT_cmd,
                    args = [0 \<mapsto> var_name k]\<rparr>, 3)"
    by (simp add: strip_newline_decimal_digits is_integer_decimal_digits s0 t1 t2 sp pa hdv Let_def
          numeral_3_eq_3) (simp add: syntax_flags)
  then show ?thesis
    using assms(2) by (simp add: parse_line_def strtok_int_line check_arguments_def)
qed

lemma is_defined_from_absent:
  "(\<forall>j. i \<le> j \<and> j < intNamesLen rt \<longrightarrow> (\<exists>v. intNames rt j = Some v \<and> v \<noteq> a))
     \<Longrightarrow> is_defined_from rt (Some a) i = Inr None"
proof (induction rt "Some a" i rule: is_defined_from.induct)
  case (1 rt i)
  show ?case
  proof (cases "i < intNamesLen rt")
    case False
    then show ?thesis by simp
  next
    case True
    with "1.prems" obtain v where v: "intNames rt i = Some v" "v \<noteq> a" by auto
    from "1.prems" have "\<forall>j. Suc i \<le> j \<and> j < intNamesLen rt \<longrightarrow> (\<exists>v. intNames rt j = Some v \<and> v \<noteq> a)"
      by auto
    with "1.hyps"[OF True v(1) refl] v have "is_defined_from rt (Some a) (Suc i) = Inr None" by simp
    with True v show ?thesis by (subst is_defined_from.simps) simp
  qed
qed

lemma var_name_inj:
  assumes "i < 10000" and "j < 10000" and "var_name i = var_name j"
  shows "i = j"
proof -
  from assms(3) have "decimal_digits 4 i = decimal_digits 4 j" by (simp add: var_name_def)
  then have "i mod 10 ^ 4 = j mod 10 ^ 4" by (rule decimal_digits_inj)
  with assms(1,2) show ?thesis by simp
qed

lemma is_defined_fresh:
  assumes "\<forall>i<intNamesLen rt. intNames rt i = Some (var_name i)"
      and "intNamesLen rt \<le> n" and "n < 10000"
  shows "is_defined rt (Some (var_name n)) = Inr None"
  unfolding is_defined_def
proof (rule is_defined_from_absent, intro allI impI)
  fix j assume j: "0 \<le> j \<and> j < intNamesLen rt"
  with assms(1) have "intNames rt j = Some (var_name j)" by simp
  moreover have "var_name j \<noteq> var_name n"
    using var_name_inj[of j n] j assms(2,3) by auto
  ultimately show "\<exists>v. intNames rt j = Some v \<and> v \<noteq> var_name n" by simp
qed

lemma int_line_not_blank: "take (Suc 0) (int_line k) \<noteq> [CHR 0x0A]"
proof -
  obtain c cs where e: "decimal_digits 4 k = c # cs"
    using length_decimal_digits[of 4 k] by (cases "decimal_digits 4 k") auto
  have "isdigit c" using decimal_digits_chars[of c 4 k] e by simp
  then have "c \<noteq> CHR 0x0A" by (simp add: isdigit_not_space)
  then show ?thesis by (simp add: int_line_def e)
qed

lemma parse_lines_append:
  "parse_lines u rt (xs @ ys) =
     (case parse_lines u rt xs of Inl e \<Rightarrow> Inl e | Inr rt' \<Rightarrow> parse_lines u rt' ys)"
  by (induction xs arbitrary: rt) (auto split: sum.splits)

lemma parse_lines_int_lines:
  assumes "ret_check_arguments u \<noteq> - 1"
  shows "intNamesLen rt = n \<Longrightarrow> \<forall>i<n. intNames rt i = Some (var_name i) \<Longrightarrow> n + m \<le> MAXVAR \<Longrightarrow>
         \<exists>rt'. parse_lines u rt (map int_line [n..<n + m]) = Inr rt'
               \<and> intNamesLen rt' = n + m
               \<and> (\<forall>i<n + m. intNames rt' i = Some (var_name i))"
proof (induction m arbitrary: rt n)
  case 0
  then show ?case by simp
next
  case (Suc m)
  let ?rt1 = "rt\<lparr>commands := commands rt @
                         [\<lparr>line_number = atoi (decimal_digits 4 n), command_type = INT_cmd,
                           args = [0 \<mapsto> var_name n]\<rparr>],
                       intNames := (intNames rt)(intNamesLen rt \<mapsto> var_name n),
                       intNamesLen := Suc (intNamesLen rt)\<rparr>"
  from Suc.prems have n: "n < MAXVAR" by simp
  then have n4: "n < 10000" by (simp add: MAXVAR_def)
  have fresh: "is_defined rt (Some (var_name n)) = Inr None"
    using is_defined_fresh[of rt n] Suc.prems(1,2) n4 by simp
  have pl: "parse_line u rt (int_line n) = Inr ?rt1"
    using parse_line_int_line[OF fresh assms] n Suc.prems(1) by simp
  have a: "intNamesLen ?rt1 = Suc n" using Suc.prems(1) by simp
  have b: "\<forall>i<Suc n. intNames ?rt1 i = Some (var_name i)"
    using Suc.prems(1,2) by (simp add: less_Suc_eq)
  have c: "Suc n + m \<le> MAXVAR" using Suc.prems(3) by simp
  from Suc.IH[OF a b c] obtain rt' where
    r: "parse_lines u ?rt1 (map int_line [Suc n..<Suc n + m]) = Inr rt'"
       "intNamesLen rt' = Suc n + m" "\<forall>i<Suc n + m. intNames rt' i = Some (var_name i)"
    by blast
  have e: "[n..<n + Suc m] = n # [Suc n..<Suc n + m]"
    by (simp add: upt_conv_Cons)
  have "parse_lines u rt (map int_line (n # [Suc n..<Suc n + m])) = Inr rt'"
    using pl r(1) by (simp add: int_line_not_blank)
  then have "parse_lines u rt (map int_line [n..<n + Suc m]) = Inr rt'"
    by (simp only: e)
  with r(2,3) show ?case by simp
qed

section \<open>Properties\<close>

text \<open>
  C1. A \<open>div\<close> whose value operand is the literal \<open>0\<close> should halt with the diagnostic
  DivisionByZero after an explicit test of the divisor. The code has no such test and no
  such diagnostic: \<open>div\<close> goes from \<open>is_set\<close> straight to \<open>/=\<close>. In the file
  \<open>1 int x, 2 begin, 3 set x 6, 4 div x 0, 5 end\<close> the division by zero is reached and
  executed, which is undefined behaviour in C.
\<close>

theorem div_by_literal_zero_is_not_guarded:
  "halted_with (main zeroed 10 div_zero_file) = Some (Undefined DivideByZero)"
  by code_simp

text \<open>
  C2. A line with an operand that fails validation should stop the construction of the
  program. \<open>parse_arg\<close> prints the diagnostic and returns -1, but \<open>parse_line\<close> calls it
  without looking at what it returns: the build goes on and returns a Runtime for a
  duplicate \<open>int\<close>, an undefined variable in \<open>set\<close>, an invalid \<open>if\<close> operator, a variable name
  of twelve characters and a \<open>goto\<close> target that is not an integer. For the duplicate
  declaration the execution then runs from \<open>begin\<close> to \<open>end\<close>.
\<close>

theorem invalid_operand_does_not_stop_the_build:
  "built (build_runtime_from_file zeroed duplicate_int_file) \<noteq> None
   \<and> built (build_runtime_from_file zeroed undefined_set_file) \<noteq> None
   \<and> built (build_runtime_from_file zeroed bad_operator_file) \<noteq> None
   \<and> built (build_runtime_from_file zeroed long_name_file) \<noteq> None
   \<and> built (build_runtime_from_file zeroed bad_goto_file) \<noteq> None
   \<and> map_option pc (finished (main zeroed 10 duplicate_int_file)) = Some 4"
  by code_simp

text \<open>
  C3. Once \<open>set var lit\<close> has executed, \<open>var\<close> should be found set by every later
  operation, however many variables were declared before it. In the file
  \<open>1 int a, 2 int b, 3 begin, 4 set b 1, 5 add b 1, 6 end\<close> the \<open>set\<close> executes: after it
  slot 1 holds the name \<open>b\<close>, the value 1 and the flag 1, and \<open>intValuesLen\<close> is 1. The loop of
  \<open>is_set\<close> is bounded by \<open>intValuesLen\<close>, so it looks at slot 0 only, does not find \<open>b\<close>, and
  the \<open>add\<close> on the next line stops with "is not set".
\<close>

theorem set_variable_not_found_by_is_set:
  "map_option (\<lambda>rt. (pc rt, intNames rt 1, intValues rt 1, intValuesSet rt 1, intValuesLen rt))
     (Some (passes 2 (loaded set_second_file))) = Some (5, Some ''b'', 1, 1, 1)
   \<and> is_set (passes 2 (loaded set_second_file)) (Some ''b'') = Inr None
   \<and> halted_with (main zeroed 10 set_second_file) = Some UnsetVariable"
  by code_simp

text \<open>
  C4. When the value token of \<open>add\<close>, \<open>sub\<close>, \<open>mult\<close> or \<open>div\<close> names a variable, the
  arithmetic should use the value stored for that variable. In the file
  \<open>1 int x, 2 int y, 3 begin, 4 set x 5, 5 set y 7, 6 add x y, 7 end\<close> the parser accepts
  and stores the token \<open>y\<close>, and the run ends normally with \<open>x = 5\<close>, not 12: the operand of
  the addition is \<open>atoi\<close> of the token, which is 0 for a name.
\<close>

theorem add_of_variable_adds_zero:
  "map_option (\<lambda>rt. args (commands rt ! 5) 1) (built (build_runtime_from_file zeroed add_variable_file))
     = Some (Some ''y'')
   \<and> atoi ''y'' = 0
   \<and> map_option (\<lambda>rt. (intValues rt 0, intValues rt 1)) (finished (main zeroed 10 add_variable_file))
     = Some (5, 7)"
  by code_simp

text \<open>
  C5. A file without a \<open>begin\<close> line (or without an \<open>end\<close> line) should fail to build.
  The test is \<open>runtime->begin_flag == 0\<close> (\<open>end_flag\<close>), and the flags are set to 1 by the
  keywords and never set to 0: the Runtime comes from \<open>malloc\<close> and only its lengths and
  \<open>intValuesSet\<close> are initialised. With zero-filled memory the build fails as it should;
  with a block whose flag word is not 0 it returns a Runtime for a file that has no
  \<open>begin\<close> (no \<open>end\<close>).
\<close>

theorem missing_begin_or_end_depends_on_heap_contents:
  "refused (build_runtime_from_file zeroed no_begin_file) = Some MissingBegin
   \<and> refused (build_runtime_from_file zeroed no_end_file) = Some MissingEnd
   \<and> built (build_runtime_from_file (zeroed\<lparr>heap_begin_flag := 1\<rparr>) no_begin_file) \<noteq> None
   \<and> built (build_runtime_from_file (zeroed\<lparr>heap_end_flag := 1\<rparr>) no_end_file) \<noteq> None"
  by code_simp

text \<open>
  C6, as stated: after every executed command that takes no branch, the next command
  executed is the one at the next position of the array. Two files show that this is not
  so, since the loop goes on by the line number in \<open>pc\<close>, tested against \<open>end_line\<close> and
  looked up from the start of the array.
  \<^item> \<open>1 begin, 5 int x, 9 set x 7, 4 add x 1, 8 end\<close>: \<open>5 int x\<close> is executed and \<open>pc\<close>
    becomes 9, the line number at the next position; 9 is not below \<open>end_line = 8\<close>, the
    loop ends and \<open>9 set x 7\<close> is never executed.
  \<^item> \<open>1 int x, 2 begin, 3 set x 1, 3 set x 2, 4 add x 10, 5 end\<close>: \<open>3 set x 1\<close> at
    position 2 is executed and \<open>pc\<close> becomes 3, the line number at position 3; the search
    finds line 3 at position 2 first, so position 2 is executed again, not position 3,
    and the loop has not ended after 20 passes.
\<close>

theorem next_command_is_not_always_the_following_one:
  "pc (passes 1 (loaded early_end_file)) < end_line (passes 1 (loaded early_end_file))
   \<and> get_command_by_line_number (passes 1 (loaded early_end_file))
        (pc (passes 1 (loaded early_end_file))) = Some 1
   \<and> command_type (commands (passes 1 (loaded early_end_file)) ! 1) = INT_cmd
   \<and> map line_number (commands (loaded early_end_file)) = [1, 5, 9, 4, 8]
   \<and> end_line (loaded early_end_file) = 8
   \<and> map_option pc (built (step (passes 1 (loaded early_end_file)))) = Some 9
   \<and> map_option (\<lambda>rt. (pc rt, intValuesLen rt, intValuesSet rt 0))
        (finished (main zeroed 10 early_end_file)) = Some (9, 0, 0)
   \<and> pc (passes 1 (loaded repeated_line_file)) < end_line (passes 1 (loaded repeated_line_file))
   \<and> get_command_by_line_number (passes 1 (loaded repeated_line_file))
        (pc (passes 1 (loaded repeated_line_file))) = Some 2
   \<and> command_type (commands (passes 1 (loaded repeated_line_file)) ! 2) = SET
   \<and> map_option (\<lambda>rt. (pc rt < end_line rt, get_command_by_line_number rt (pc rt)))
        (built (step (passes 1 (loaded repeated_line_file)))) = Some (True, Some 2)
   \<and> map_option (\<lambda>rt. (pc rt < end_line rt, get_command_by_line_number rt (pc rt)))
        (built (step (passes 1 (loaded repeated_line_file)))) \<noteq> Some (True, Some 3)
   \<and> Option.is_none (main zeroed 20 repeated_line_file)"
  by code_simp

text \<open>
  C6, amended. For a command that the loop executes, that takes no branch (any command but
  \<open>goto\<close> and an \<open>if\<close> whose comparison is false) and that is not the last of the array:
  \<open>next_idx\<close> is \<open>command_id + 1\<close>, the next position in the order of the file, and the
  loop goes on with \<open>pc\<close> set to the line number stored there, whatever the numeric order
  of the line numbers. When that line number is below \<open>end_line\<close> and no earlier command
  carries it, the next pass of the loop is executed and resolves \<open>pc\<close> to position
  \<open>command_id + 1\<close>. When it is not below \<open>end_line\<close>, the loop ends in that state.
\<close>

theorem fallthrough_follows_declaration_order:
  assumes "pc rt < end_line rt"
      and "get_command_by_line_number rt (pc rt) = Some command_id"
      and "command_type (commands rt ! command_id) \<noteq> GOTO"
      and "command_type (commands rt ! command_id) = IF \<longrightarrow>
             (\<forall>val1 val2 op.
                if_operand rt (args (commands rt ! command_id) 0) = Inr val1 \<longrightarrow>
                if_operand rt (args (commands rt ! command_id) 2) = Inr val2 \<longrightarrow>
                args (commands rt ! command_id) 1 = Some op \<longrightarrow> evaluate op val1 val2 \<noteq> 0)"
      and "execute_command rt command_id = Inr (rt', next_idx)"
      and "command_id + 1 < commandsLen rt"
  shows "next_idx = command_id + 1
         \<and> commands rt' = commands rt
         \<and> end_line rt' = end_line rt
         \<and> run (Suc fuel) rt = run fuel (rt'\<lparr>pc := line_number (commands rt ! (command_id + 1))\<rparr>)
         \<and> (line_number (commands rt ! (command_id + 1)) < end_line rt
              \<and> (\<forall>j<command_id + 1.
                     line_number (commands rt ! j) \<noteq> line_number (commands rt ! (command_id + 1)))
             \<longrightarrow> get_command_by_line_number
                   (rt'\<lparr>pc := line_number (commands rt ! (command_id + 1))\<rparr>)
                   (line_number (commands rt ! (command_id + 1))) = Some (command_id + 1)
                 \<and> run (Suc fuel) (rt'\<lparr>pc := line_number (commands rt ! (command_id + 1))\<rparr>)
                     = (case step (rt'\<lparr>pc := line_number (commands rt ! (command_id + 1))\<rparr>) of
                          Inl e \<Rightarrow> Some (Inl e)
                        | Inr rt'' \<Rightarrow> run fuel rt''))
         \<and> (end_line rt \<le> line_number (commands rt ! (command_id + 1))
             \<longrightarrow> run fuel (rt'\<lparr>pc := line_number (commands rt ! (command_id + 1))\<rparr>)
                   = Some (Inr (rt'\<lparr>pc := line_number (commands rt ! (command_id + 1))\<rparr>)))"
proof -
  let ?L = "line_number (commands rt ! (command_id + 1))"
  let ?R = "rt'\<lparr>pc := ?L\<rparr>"
  from execute_command_fallthrough[OF assms(5,3,4)]
  have n: "next_idx = command_id + 1" and c: "commands rt' = commands rt" by simp_all
  from execute_command_preserves[OF assms(5)]
  have e: "end_line rt' = end_line rt" by simp
  have s: "step rt = Inr ?R"
    using assms(2,5,6) n c by (simp add: step_def commandsLen_def)
  have r: "run (Suc fuel) rt = run fuel ?R"
    using assms(1) s by simp
  have a: "?L < end_line rt
              \<and> (\<forall>j<command_id + 1. line_number (commands rt ! j) \<noteq> ?L)
             \<longrightarrow> get_command_by_line_number ?R ?L = Some (command_id + 1)
                 \<and> run (Suc fuel) ?R
                     = (case step ?R of Inl e \<Rightarrow> Some (Inl e) | Inr rt'' \<Rightarrow> run fuel rt'')"
  proof (intro impI conjI)
    assume h: "?L < end_line rt \<and> (\<forall>j<command_id + 1. line_number (commands rt ! j) \<noteq> ?L)"
    have "command_index_from (commands rt) ?L 0 = Some (0 + (command_id + 1))"
      using assms(6) h by (intro command_index_from_first) (simp_all add: commandsLen_def)
    then show "get_command_by_line_number ?R ?L = Some (command_id + 1)"
      by (simp add: get_command_by_line_number_def c)
    from h have "pc ?R < end_line ?R" by (simp add: e)
    then show "run (Suc fuel) ?R
                 = (case step ?R of Inl e \<Rightarrow> Some (Inl e) | Inr rt'' \<Rightarrow> run fuel rt'')"
      by (simp only: run.simps if_True)
  qed
  have b: "end_line rt \<le> ?L \<longrightarrow> run fuel ?R = Some (Inr ?R)"
  proof
    assume "end_line rt \<le> ?L"
    then have "\<not> pc ?R < end_line ?R" by (simp add: e)
    then show "run fuel ?R = Some (Inr ?R)" by (rule run_ends)
  qed
  from n c e r a b show ?thesis by (intro conjI)
qed

theorem fallthrough_follows_declaration_order_witness:
  "pc (passes 1 (loaded out_of_order_file)) < end_line (passes 1 (loaded out_of_order_file))
   \<and> get_command_by_line_number (passes 1 (loaded out_of_order_file))
        (pc (passes 1 (loaded out_of_order_file))) = Some 1
   \<and> command_type (commands (passes 1 (loaded out_of_order_file)) ! 1) = INT_cmd
   \<and> \<not> isl (execute_command (passes 1 (loaded out_of_order_file)) 1)
   \<and> snd (projr (execute_command (passes 1 (loaded out_of_order_file)) 1)) = 2
   \<and> map line_number (commands (passes 1 (loaded out_of_order_file))) = [1, 5, 3, 4, 9]
   \<and> end_line (passes 1 (loaded out_of_order_file)) = 9
   \<and> run (Suc 5) (passes 1 (loaded out_of_order_file))
       = run 5 ((fst (projr (execute_command (passes 1 (loaded out_of_order_file)) 1)))\<lparr>pc := 3\<rparr>)
   \<and> get_command_by_line_number
        ((fst (projr (execute_command (passes 1 (loaded out_of_order_file)) 1)))\<lparr>pc := 3\<rparr>) 3
       = Some 2
   \<and> pc (passes 1 (loaded early_end_file)) < end_line (passes 1 (loaded early_end_file))
   \<and> get_command_by_line_number (passes 1 (loaded early_end_file))
        (pc (passes 1 (loaded early_end_file))) = Some 1
   \<and> command_type (commands (passes 1 (loaded early_end_file)) ! 1) = INT_cmd
   \<and> \<not> isl (execute_command (passes 1 (loaded early_end_file)) 1)
   \<and> map line_number (commands (passes 1 (loaded early_end_file))) = [1, 5, 9, 4, 8]
   \<and> end_line (passes 1 (loaded early_end_file)) = 8
   \<and> run (Suc 5) (passes 1 (loaded early_end_file))
       = Some (Inr ((fst (projr (execute_command (passes 1 (loaded early_end_file)) 1)))\<lparr>pc := 9\<rparr>))"
proof -
  define R where "R = passes 1 (loaded out_of_order_file)"
  define R' where "R' = fst (projr (execute_command R 1))"
  define n where "n = snd (projr (execute_command R 1))"
  define E where "E = passes 1 (loaded early_end_file)"
  define E' where "E' = fst (projr (execute_command E 1))"
  define m where "m = snd (projr (execute_command E 1))"
  have r1: "pc R < end_line R" unfolding R_def by code_simp
  have r2: "get_command_by_line_number R (pc R) = Some 1" unfolding R_def by code_simp
  have rt: "command_type (commands R ! 1) = INT_cmd" unfolding R_def by code_simp
  have r3: "command_type (commands R ! 1) \<noteq> GOTO" unfolding R_def by code_simp
  have "command_type (commands R ! 1) \<noteq> IF" unfolding R_def by code_simp
  then have r4: "command_type (commands R ! 1) = IF \<longrightarrow>
             (\<forall>val1 val2 op.
                if_operand R (args (commands R ! 1) 0) = Inr val1 \<longrightarrow>
                if_operand R (args (commands R ! 1) 2) = Inr val2 \<longrightarrow>
                args (commands R ! 1) 1 = Some op \<longrightarrow> evaluate op val1 val2 \<noteq> 0)"
    by simp
  have rok: "\<not> isl (execute_command R 1)" unfolding R_def by code_simp
  then have r5: "execute_command R 1 = Inr (R', n)" by (simp add: R'_def n_def)
  have r6: "1 + 1 < commandsLen R" unfolding R_def by code_simp
  have rl: "map line_number (commands R) = [1, 5, 3, 4, 9]" unfolding R_def by code_simp
  have re: "end_line R = 9" unfolding R_def by code_simp
  have rL: "line_number (commands R ! (1 + 1)) = 3" unfolding R_def by code_simp
  have rd: "line_number (commands R ! (1 + 1)) < end_line R
            \<and> (\<forall>j<1 + 1. line_number (commands R ! j) \<noteq> line_number (commands R ! (1 + 1)))"
    unfolding R_def by code_simp
  note i = fallthrough_follows_declaration_order[OF r1 r2 r3 r4 r5 r6, where fuel = 5]
  from i have "n = 1 + 1" by (rule conjunct1)
  then have a: "snd (projr (execute_command R 1)) = 2" by (simp add: n_def)
  from i have "run (Suc 5) R = run 5 (R'\<lparr>pc := line_number (commands R ! (1 + 1))\<rparr>)"
    by blast
  then have b: "run (Suc 5) R = run 5 (R'\<lparr>pc := 3\<rparr>)"
    by (simp only: rL)
  from i rd
  have "get_command_by_line_number (R'\<lparr>pc := line_number (commands R ! (1 + 1))\<rparr>)
          (line_number (commands R ! (1 + 1))) = Some (1 + 1)"
    by blast
  from this[unfolded rL] have c: "get_command_by_line_number (R'\<lparr>pc := 3\<rparr>) 3 = Some 2"
    by simp
  have e1: "pc E < end_line E" unfolding E_def by code_simp
  have e2: "get_command_by_line_number E (pc E) = Some 1" unfolding E_def by code_simp
  have et: "command_type (commands E ! 1) = INT_cmd" unfolding E_def by code_simp
  have e3: "command_type (commands E ! 1) \<noteq> GOTO" unfolding E_def by code_simp
  have "command_type (commands E ! 1) \<noteq> IF" unfolding E_def by code_simp
  then have e4: "command_type (commands E ! 1) = IF \<longrightarrow>
             (\<forall>val1 val2 op.
                if_operand E (args (commands E ! 1) 0) = Inr val1 \<longrightarrow>
                if_operand E (args (commands E ! 1) 2) = Inr val2 \<longrightarrow>
                args (commands E ! 1) 1 = Some op \<longrightarrow> evaluate op val1 val2 \<noteq> 0)"
    by simp
  have eok: "\<not> isl (execute_command E 1)" unfolding E_def by code_simp
  then have e5: "execute_command E 1 = Inr (E', m)" by (simp add: E'_def m_def)
  have e6: "1 + 1 < commandsLen E" unfolding E_def by code_simp
  have el: "map line_number (commands E) = [1, 5, 9, 4, 8]" unfolding E_def by code_simp
  have ee: "end_line E = 8" unfolding E_def by code_simp
  have eL: "line_number (commands E ! (1 + 1)) = 9" unfolding E_def by code_simp
  have ed: "end_line E \<le> line_number (commands E ! (1 + 1))" unfolding E_def by code_simp
  note k = fallthrough_follows_declaration_order[OF e1 e2 e3 e4 e5 e6, where fuel = 5]
  from k have "run (Suc 5) E = run 5 (E'\<lparr>pc := line_number (commands E ! (1 + 1))\<rparr>)"
    by blast
  moreover from k ed
  have "run 5 (E'\<lparr>pc := line_number (commands E ! (1 + 1))\<rparr>)
          = Some (Inr (E'\<lparr>pc := line_number (commands E ! (1 + 1))\<rparr>))"
    by blast
  ultimately have "run (Suc 5) E = Some (Inr (E'\<lparr>pc := line_number (commands E ! (1 + 1))\<rparr>))"
    by (rule trans)
  then have d: "run (Suc 5) E = Some (Inr (E'\<lparr>pc := 9\<rparr>))"
    by (simp only: eL)
  from r1 r2 rt rok a rl re b c e1 e2 et eok el ee d
  have "pc R < end_line R
   \<and> get_command_by_line_number R (pc R) = Some 1
   \<and> command_type (commands R ! 1) = INT_cmd
   \<and> \<not> isl (execute_command R 1)
   \<and> snd (projr (execute_command R 1)) = 2
   \<and> map line_number (commands R) = [1, 5, 3, 4, 9]
   \<and> end_line R = 9
   \<and> run (Suc 5) R = run 5 (R'\<lparr>pc := 3\<rparr>)
   \<and> get_command_by_line_number (R'\<lparr>pc := 3\<rparr>) 3 = Some 2
   \<and> pc E < end_line E
   \<and> get_command_by_line_number E (pc E) = Some 1
   \<and> command_type (commands E ! 1) = INT_cmd
   \<and> \<not> isl (execute_command E 1)
   \<and> map line_number (commands E) = [1, 5, 9, 4, 8]
   \<and> end_line E = 8
   \<and> run (Suc 5) E = Some (Inr (E'\<lparr>pc := 9\<rparr>))"
    by (intro conjI)
  then show ?thesis unfolding R'_def E'_def R_def E_def .
qed

text \<open>
  C7, as stated: after an \<open>if\<close> whose comparison is false the command declared directly
  after it is skipped unconditionally. In the file
  \<open>1 int a, 2 begin, 3 set a 4, 4 if a eq 3, 5 add a 10, 5 add a 100, 7 end\<close> the comparison
  is false and \<open>next_idx\<close> is 5, two positions after the \<open>if\<close> at position 3; \<open>pc\<close> becomes 5,
  the line number stored there, and the search finds line 5 at position 4 first: the
  command declared directly after the \<open>if\<close> is executed, and \<open>a\<close> becomes 14. From there
  \<open>pc\<close> stays 5, and the loop has not ended after 20 passes.
\<close>

theorem false_if_does_not_always_skip_the_following_command:
  "pc (passes 2 (loaded repeated_after_if_file)) < end_line (passes 2 (loaded repeated_after_if_file))
   \<and> get_command_by_line_number (passes 2 (loaded repeated_after_if_file))
        (pc (passes 2 (loaded repeated_after_if_file))) = Some 3
   \<and> command_type (commands (passes 2 (loaded repeated_after_if_file)) ! 3) = IF
   \<and> if_operand (passes 2 (loaded repeated_after_if_file)) (Some ''a'') = Inr 4
   \<and> if_operand (passes 2 (loaded repeated_after_if_file)) (Some ''3'') = Inr 3
   \<and> evaluate ''eq'' 4 3 = 0
   \<and> \<not> isl (execute_command (passes 2 (loaded repeated_after_if_file)) 3)
   \<and> snd (projr (execute_command (passes 2 (loaded repeated_after_if_file)) 3)) = 5
   \<and> commandsLen (passes 2 (loaded repeated_after_if_file)) = 7
   \<and> map_option (\<lambda>rt. (pc rt, pc rt < end_line rt, get_command_by_line_number rt (pc rt)))
        (built (step (passes 2 (loaded repeated_after_if_file)))) = Some (5, True, Some 4)
   \<and> args (commands (loaded repeated_after_if_file) ! 4) 1 = Some ''10''
   \<and> intValues (passes 3 (loaded repeated_after_if_file)) 0 = 4
   \<and> intValues (passes 4 (loaded repeated_after_if_file)) 0 = 14
   \<and> map_option (\<lambda>rt. (pc rt, intValues rt 0))
        (finished (run 2 (passes 2 (loaded repeated_after_if_file)))) = None
   \<and> Option.is_none (main zeroed 20 repeated_after_if_file)"
  by code_simp

text \<open>
  C7, amended. For an \<open>if\<close> that the loop executes and whose two sides have the values
  \<open>val1\<close> and \<open>val2\<close>: when \<open>evaluate\<close> returns 0 (the comparison is false) \<open>next_idx\<close> is
  incremented once more, to \<open>command_id + 2\<close>; otherwise it is \<open>command_id + 1\<close>, the default
  fallthrough. Where the array has that position, the loop goes on with \<open>pc\<close> set to the
  line number stored there. After a false comparison the next pass does not resolve \<open>pc\<close>
  to the command declared directly after the \<open>if\<close>, provided the line number of that
  command differs from the one at \<open>command_id + 2\<close>. In both cases, when the new line number is
  below \<open>end_line\<close> and no earlier command carries it, the next pass is executed and
  resolves \<open>pc\<close> to position \<open>next_idx\<close>; when it is not below \<open>end_line\<close>, the loop ends.
\<close>

theorem if_advances_one_or_two_commands:
  assumes "pc rt < end_line rt"
      and "get_command_by_line_number rt (pc rt) = Some command_id"
      and "command_type (commands rt ! command_id) = IF"
      and "if_operand rt (args (commands rt ! command_id) 0) = Inr val1"
      and "if_operand rt (args (commands rt ! command_id) 2) = Inr val2"
      and "args (commands rt ! command_id) 1 = Some op"
  shows "execute_command rt command_id =
           Inr (rt, if evaluate op val1 val2 = 0 then command_id + 1 + 1 else command_id + 1)
       \<and> (evaluate op val1 val2 = 0 \<and> command_id + 2 < commandsLen rt \<longrightarrow>
            run (Suc fuel) rt = run fuel (rt\<lparr>pc := line_number (commands rt ! (command_id + 2))\<rparr>)
            \<and> (line_number (commands rt ! (command_id + 1)) \<noteq> line_number (commands rt ! (command_id + 2))
                \<longrightarrow> get_command_by_line_number
                      (rt\<lparr>pc := line_number (commands rt ! (command_id + 2))\<rparr>)
                      (line_number (commands rt ! (command_id + 2))) \<noteq> Some (command_id + 1))
            \<and> (line_number (commands rt ! (command_id + 2)) < end_line rt
                 \<and> (\<forall>j<command_id + 2.
                        line_number (commands rt ! j) \<noteq> line_number (commands rt ! (command_id + 2)))
                \<longrightarrow> get_command_by_line_number
                      (rt\<lparr>pc := line_number (commands rt ! (command_id + 2))\<rparr>)
                      (line_number (commands rt ! (command_id + 2))) = Some (command_id + 2)
                    \<and> run (Suc fuel) (rt\<lparr>pc := line_number (commands rt ! (command_id + 2))\<rparr>)
                        = (case step (rt\<lparr>pc := line_number (commands rt ! (command_id + 2))\<rparr>) of
                             Inl e \<Rightarrow> Some (Inl e)
                           | Inr rt'' \<Rightarrow> run fuel rt''))
            \<and> (end_line rt \<le> line_number (commands rt ! (command_id + 2))
                \<longrightarrow> run fuel (rt\<lparr>pc := line_number (commands rt ! (command_id + 2))\<rparr>)
                      = Some (Inr (rt\<lparr>pc := line_number (commands rt ! (command_id + 2))\<rparr>))))
       \<and> (evaluate op val1 val2 \<noteq> 0 \<and> command_id + 1 < commandsLen rt \<longrightarrow>
            run (Suc fuel) rt = run fuel (rt\<lparr>pc := line_number (commands rt ! (command_id + 1))\<rparr>)
            \<and> (line_number (commands rt ! (command_id + 1)) < end_line rt
                 \<and> (\<forall>j<command_id + 1.
                        line_number (commands rt ! j) \<noteq> line_number (commands rt ! (command_id + 1)))
                \<longrightarrow> get_command_by_line_number
                      (rt\<lparr>pc := line_number (commands rt ! (command_id + 1))\<rparr>)
                      (line_number (commands rt ! (command_id + 1))) = Some (command_id + 1)
                    \<and> run (Suc fuel) (rt\<lparr>pc := line_number (commands rt ! (command_id + 1))\<rparr>)
                        = (case step (rt\<lparr>pc := line_number (commands rt ! (command_id + 1))\<rparr>) of
                             Inl e \<Rightarrow> Some (Inl e)
                           | Inr rt'' \<Rightarrow> run fuel rt''))
            \<and> (end_line rt \<le> line_number (commands rt ! (command_id + 1))
                \<longrightarrow> run fuel (rt\<lparr>pc := line_number (commands rt ! (command_id + 1))\<rparr>)
                      = Some (Inr (rt\<lparr>pc := line_number (commands rt ! (command_id + 1))\<rparr>))))"
proof -
  let ?L1 = "line_number (commands rt ! (command_id + 1))"
  let ?L2 = "line_number (commands rt ! (command_id + 2))"
  have ex: "execute_command rt command_id =
              Inr (rt, if evaluate op val1 val2 = 0 then command_id + 1 + 1 else command_id + 1)"
    using assms(3-6) by (simp add: execute_command_def Let_def syntax_flags)
  have found: "get_command_by_line_number (rt\<lparr>pc := line_number (commands rt ! k)\<rparr>)
                 (line_number (commands rt ! k)) = Some k"
    if "k < commandsLen rt"
      and "\<forall>j<k. line_number (commands rt ! j) \<noteq> line_number (commands rt ! k)" for k
  proof -
    have "command_index_from (commands rt) (line_number (commands rt ! k)) 0 = Some (0 + k)"
      using that by (intro command_index_from_first) (simp_all add: commandsLen_def)
    then show ?thesis by (simp add: get_command_by_line_number_def)
  qed
  have other: "get_command_by_line_number (rt\<lparr>pc := l\<rparr>) l \<noteq> Some k"
    if "line_number (commands rt ! k) \<noteq> l" for k l
  proof
    assume "get_command_by_line_number (rt\<lparr>pc := l\<rparr>) l = Some k"
    then have "command_index_from (commands rt) l 0 = Some k"
      by (simp add: get_command_by_line_number_def)
    from command_index_from_Some[OF this] that show False by simp
  qed
  have pass: "run (Suc fuel) (rt\<lparr>pc := l\<rparr>)
                = (case step (rt\<lparr>pc := l\<rparr>) of Inl e \<Rightarrow> Some (Inl e) | Inr rt'' \<Rightarrow> run fuel rt'')"
    if "l < end_line rt" for l
  proof -
    from that have "pc (rt\<lparr>pc := l\<rparr>) < end_line (rt\<lparr>pc := l\<rparr>)" by simp
    then show ?thesis by (simp only: run.simps if_True)
  qed
  have ends: "run fuel (rt\<lparr>pc := l\<rparr>) = Some (Inr (rt\<lparr>pc := l\<rparr>))"
    if "end_line rt \<le> l" for l
  proof -
    from that have "\<not> pc (rt\<lparr>pc := l\<rparr>) < end_line (rt\<lparr>pc := l\<rparr>)" by simp
    then show ?thesis by (rule run_ends)
  qed
  have f: "evaluate op val1 val2 = 0 \<and> command_id + 2 < commandsLen rt \<longrightarrow>
            run (Suc fuel) rt = run fuel (rt\<lparr>pc := ?L2\<rparr>)
            \<and> (?L1 \<noteq> ?L2
                \<longrightarrow> get_command_by_line_number (rt\<lparr>pc := ?L2\<rparr>) ?L2 \<noteq> Some (command_id + 1))
            \<and> (?L2 < end_line rt
                 \<and> (\<forall>j<command_id + 2. line_number (commands rt ! j) \<noteq> ?L2)
                \<longrightarrow> get_command_by_line_number (rt\<lparr>pc := ?L2\<rparr>) ?L2 = Some (command_id + 2)
                    \<and> run (Suc fuel) (rt\<lparr>pc := ?L2\<rparr>)
                        = (case step (rt\<lparr>pc := ?L2\<rparr>) of
                             Inl e \<Rightarrow> Some (Inl e)
                           | Inr rt'' \<Rightarrow> run fuel rt''))
            \<and> (end_line rt \<le> ?L2
                \<longrightarrow> run fuel (rt\<lparr>pc := ?L2\<rparr>) = Some (Inr (rt\<lparr>pc := ?L2\<rparr>)))"
  proof (intro impI conjI)
    assume h: "evaluate op val1 val2 = 0 \<and> command_id + 2 < commandsLen rt"
    then have "step rt = Inr (rt\<lparr>pc := ?L2\<rparr>)"
      using assms(2) by (simp add: step_def ex)
    then show "run (Suc fuel) rt = run fuel (rt\<lparr>pc := ?L2\<rparr>)"
      using assms(1) by simp
    show "get_command_by_line_number (rt\<lparr>pc := ?L2\<rparr>) ?L2 \<noteq> Some (command_id + 1)"
      if "?L1 \<noteq> ?L2"
      using that by (rule other)
    show "get_command_by_line_number (rt\<lparr>pc := ?L2\<rparr>) ?L2 = Some (command_id + 2)"
      if "?L2 < end_line rt \<and> (\<forall>j<command_id + 2. line_number (commands rt ! j) \<noteq> ?L2)"
      using that h by (intro found) simp_all
    show "run (Suc fuel) (rt\<lparr>pc := ?L2\<rparr>)
            = (case step (rt\<lparr>pc := ?L2\<rparr>) of Inl e \<Rightarrow> Some (Inl e) | Inr rt'' \<Rightarrow> run fuel rt'')"
      if "?L2 < end_line rt \<and> (\<forall>j<command_id + 2. line_number (commands rt ! j) \<noteq> ?L2)"
      using that by (intro pass) simp
    show "run fuel (rt\<lparr>pc := ?L2\<rparr>) = Some (Inr (rt\<lparr>pc := ?L2\<rparr>))"
      if "end_line rt \<le> ?L2"
      using that by (rule ends)
  qed
  have t: "evaluate op val1 val2 \<noteq> 0 \<and> command_id + 1 < commandsLen rt \<longrightarrow>
            run (Suc fuel) rt = run fuel (rt\<lparr>pc := ?L1\<rparr>)
            \<and> (?L1 < end_line rt
                 \<and> (\<forall>j<command_id + 1. line_number (commands rt ! j) \<noteq> ?L1)
                \<longrightarrow> get_command_by_line_number (rt\<lparr>pc := ?L1\<rparr>) ?L1 = Some (command_id + 1)
                    \<and> run (Suc fuel) (rt\<lparr>pc := ?L1\<rparr>)
                        = (case step (rt\<lparr>pc := ?L1\<rparr>) of
                             Inl e \<Rightarrow> Some (Inl e)
                           | Inr rt'' \<Rightarrow> run fuel rt''))
            \<and> (end_line rt \<le> ?L1
                \<longrightarrow> run fuel (rt\<lparr>pc := ?L1\<rparr>) = Some (Inr (rt\<lparr>pc := ?L1\<rparr>)))"
  proof (intro impI conjI)
    assume h: "evaluate op val1 val2 \<noteq> 0 \<and> command_id + 1 < commandsLen rt"
    then have "step rt = Inr (rt\<lparr>pc := ?L1\<rparr>)"
      using assms(2) by (simp add: step_def ex)
    then show "run (Suc fuel) rt = run fuel (rt\<lparr>pc := ?L1\<rparr>)"
      using assms(1) by simp
    show "get_command_by_line_number (rt\<lparr>pc := ?L1\<rparr>) ?L1 = Some (command_id + 1)"
      if "?L1 < end_line rt \<and> (\<forall>j<command_id + 1. line_number (commands rt ! j) \<noteq> ?L1)"
      using that h by (intro found) simp_all
    show "run (Suc fuel) (rt\<lparr>pc := ?L1\<rparr>)
            = (case step (rt\<lparr>pc := ?L1\<rparr>) of Inl e \<Rightarrow> Some (Inl e) | Inr rt'' \<Rightarrow> run fuel rt'')"
      if "?L1 < end_line rt \<and> (\<forall>j<command_id + 1. line_number (commands rt ! j) \<noteq> ?L1)"
      using that by (intro pass) simp
    show "run fuel (rt\<lparr>pc := ?L1\<rparr>) = Some (Inr (rt\<lparr>pc := ?L1\<rparr>))"
      if "end_line rt \<le> ?L1"
      using that by (rule ends)
  qed
  from ex f t show ?thesis by (intro conjI)
qed

theorem if_advances_one_or_two_commands_witness:
  "pc (passes 2 (loaded if_false_file)) < end_line (passes 2 (loaded if_false_file))
   \<and> get_command_by_line_number (passes 2 (loaded if_false_file)) (pc (passes 2 (loaded if_false_file)))
       = Some 3
   \<and> command_type (commands (passes 2 (loaded if_false_file)) ! 3) = IF
   \<and> if_operand (passes 2 (loaded if_false_file)) (Some ''a'') = Inr 4
   \<and> if_operand (passes 2 (loaded if_false_file)) (Some ''3'') = Inr 3
   \<and> evaluate ''eq'' 4 3 = 0
   \<and> map line_number (commands (passes 2 (loaded if_false_file))) = [1, 2, 3, 4, 5, 6, 7]
   \<and> end_line (passes 2 (loaded if_false_file)) = 7
   \<and> execute_command (passes 2 (loaded if_false_file)) 3 = Inr (passes 2 (loaded if_false_file), 5)
   \<and> run (Suc 5) (passes 2 (loaded if_false_file)) = run 5 ((passes 2 (loaded if_false_file))\<lparr>pc := 6\<rparr>)
   \<and> get_command_by_line_number ((passes 2 (loaded if_false_file))\<lparr>pc := 6\<rparr>) 6 \<noteq> Some 4
   \<and> get_command_by_line_number ((passes 2 (loaded if_false_file))\<lparr>pc := 6\<rparr>) 6 = Some 5
   \<and> pc (passes 2 (loaded if_true_file)) < end_line (passes 2 (loaded if_true_file))
   \<and> get_command_by_line_number (passes 2 (loaded if_true_file)) (pc (passes 2 (loaded if_true_file)))
       = Some 3
   \<and> command_type (commands (passes 2 (loaded if_true_file)) ! 3) = IF
   \<and> if_operand (passes 2 (loaded if_true_file)) (Some ''a'') = Inr 3
   \<and> if_operand (passes 2 (loaded if_true_file)) (Some ''3'') = Inr 3
   \<and> evaluate ''eq'' 3 3 = 1
   \<and> execute_command (passes 2 (loaded if_true_file)) 3 = Inr (passes 2 (loaded if_true_file), 4)
   \<and> run (Suc 5) (passes 2 (loaded if_true_file)) = run 5 ((passes 2 (loaded if_true_file))\<lparr>pc := 5\<rparr>)
   \<and> get_command_by_line_number ((passes 2 (loaded if_true_file))\<lparr>pc := 5\<rparr>) 5 = Some 4"
proof -
  define F where "F = passes 2 (loaded if_false_file)"
  define T where "T = passes 2 (loaded if_true_file)"
  have f0: "pc F < end_line F" unfolding F_def by code_simp
  have f1: "get_command_by_line_number F (pc F) = Some 3" unfolding F_def by code_simp
  have f2: "command_type (commands F ! 3) = IF" unfolding F_def by code_simp
  have fa: "args (commands F ! 3) 0 = Some ''a''" "args (commands F ! 3) 2 = Some ''3''"
    unfolding F_def by code_simp+
  have f3: "if_operand F (Some ''a'') = Inr 4" unfolding F_def by code_simp
  have f4: "if_operand F (Some ''3'') = Inr 3" unfolding F_def by code_simp
  have f5: "args (commands F ! 3) 1 = Some ''eq''" unfolding F_def by code_simp
  have f6: "evaluate ''eq'' 4 3 = 0" by code_simp
  have fl: "map line_number (commands F) = [1, 2, 3, 4, 5, 6, 7]" unfolding F_def by code_simp
  have fe: "end_line F = 7" unfolding F_def by code_simp
  have f7: "evaluate ''eq'' 4 3 = 0 \<and> 3 + 2 < commandsLen F" unfolding F_def by code_simp
  have f8: "line_number (commands F ! (3 + 2)) = 6" unfolding F_def by code_simp
  have f9: "line_number (commands F ! (3 + 1)) \<noteq> line_number (commands F ! (3 + 2))"
    unfolding F_def by code_simp
  have f10: "line_number (commands F ! (3 + 2)) < end_line F
             \<and> (\<forall>j<3 + 2. line_number (commands F ! j) \<noteq> line_number (commands F ! (3 + 2)))"
    unfolding F_def by code_simp
  note i = if_advances_one_or_two_commands[OF f0 f1 f2 f3[folded fa(1)] f4[folded fa(2)] f5,
      where fuel = 5]
  from i have "execute_command F 3 = Inr (F, if evaluate ''eq'' 4 3 = 0 then 3 + 1 + 1 else 3 + 1)"
    by (rule conjunct1)
  then have fx: "execute_command F 3 = Inr (F, 5)"
    by (simp add: f6)
  from i f7 have "run (Suc 5) F = run 5 (F\<lparr>pc := line_number (commands F ! (3 + 2))\<rparr>)"
    by blast
  then have fr: "run (Suc 5) F = run 5 (F\<lparr>pc := 6\<rparr>)"
    by (simp only: f8)
  from i f7 f9
  have "get_command_by_line_number (F\<lparr>pc := line_number (commands F ! (3 + 2))\<rparr>)
          (line_number (commands F ! (3 + 2))) \<noteq> Some (3 + 1)"
    by blast
  from this[unfolded f8] have fn: "get_command_by_line_number (F\<lparr>pc := 6\<rparr>) 6 \<noteq> Some 4"
    by simp
  from i f7 f10
  have "get_command_by_line_number (F\<lparr>pc := line_number (commands F ! (3 + 2))\<rparr>)
          (line_number (commands F ! (3 + 2))) = Some (3 + 2)"
    by blast
  from this[unfolded f8] have fg: "get_command_by_line_number (F\<lparr>pc := 6\<rparr>) 6 = Some 5"
    by simp
  have t0: "pc T < end_line T" unfolding T_def by code_simp
  have t1: "get_command_by_line_number T (pc T) = Some 3" unfolding T_def by code_simp
  have t2: "command_type (commands T ! 3) = IF" unfolding T_def by code_simp
  have ta: "args (commands T ! 3) 0 = Some ''a''" "args (commands T ! 3) 2 = Some ''3''"
    unfolding T_def by code_simp+
  have t3: "if_operand T (Some ''a'') = Inr 3" unfolding T_def by code_simp
  have t4: "if_operand T (Some ''3'') = Inr 3" unfolding T_def by code_simp
  have t5: "args (commands T ! 3) 1 = Some ''eq''" unfolding T_def by code_simp
  have t6: "evaluate ''eq'' 3 3 = 1" by code_simp
  have t7: "evaluate ''eq'' 3 3 \<noteq> 0 \<and> 3 + 1 < commandsLen T" unfolding T_def by code_simp
  have t8: "line_number (commands T ! (3 + 1)) = 5" unfolding T_def by code_simp
  have t10: "line_number (commands T ! (3 + 1)) < end_line T
             \<and> (\<forall>j<3 + 1. line_number (commands T ! j) \<noteq> line_number (commands T ! (3 + 1)))"
    unfolding T_def by code_simp
  note k = if_advances_one_or_two_commands[OF t0 t1 t2 t3[folded ta(1)] t4[folded ta(2)] t5,
      where fuel = 5]
  from k have "execute_command T 3 = Inr (T, if evaluate ''eq'' 3 3 = 0 then 3 + 1 + 1 else 3 + 1)"
    by (rule conjunct1)
  then have tx: "execute_command T 3 = Inr (T, 4)"
    by (simp add: t6)
  from k t7 have "run (Suc 5) T = run 5 (T\<lparr>pc := line_number (commands T ! (3 + 1))\<rparr>)"
    by blast
  then have tr: "run (Suc 5) T = run 5 (T\<lparr>pc := 5\<rparr>)"
    by (simp only: t8)
  from k t7 t10
  have "get_command_by_line_number (T\<lparr>pc := line_number (commands T ! (3 + 1))\<rparr>)
          (line_number (commands T ! (3 + 1))) = Some (3 + 1)"
    by blast
  from this[unfolded t8] have tg: "get_command_by_line_number (T\<lparr>pc := 5\<rparr>) 5 = Some 4"
    by simp
  from f0 f1 f2 f3 f4 f6 fl fe fx fr fn fg t0 t1 t2 t3 t4 t6 tx tr tg
  have "pc F < end_line F
   \<and> get_command_by_line_number F (pc F) = Some 3
   \<and> command_type (commands F ! 3) = IF
   \<and> if_operand F (Some ''a'') = Inr 4
   \<and> if_operand F (Some ''3'') = Inr 3
   \<and> evaluate ''eq'' 4 3 = 0
   \<and> map line_number (commands F) = [1, 2, 3, 4, 5, 6, 7]
   \<and> end_line F = 7
   \<and> execute_command F 3 = Inr (F, 5)
   \<and> run (Suc 5) F = run 5 (F\<lparr>pc := 6\<rparr>)
   \<and> get_command_by_line_number (F\<lparr>pc := 6\<rparr>) 6 \<noteq> Some 4
   \<and> get_command_by_line_number (F\<lparr>pc := 6\<rparr>) 6 = Some 5
   \<and> pc T < end_line T
   \<and> get_command_by_line_number T (pc T) = Some 3
   \<and> command_type (commands T ! 3) = IF
   \<and> if_operand T (Some ''a'') = Inr 3
   \<and> if_operand T (Some ''3'') = Inr 3
   \<and> evaluate ''eq'' 3 3 = 1
   \<and> execute_command T 3 = Inr (T, 4)
   \<and> run (Suc 5) T = run 5 (T\<lparr>pc := 5\<rparr>)
   \<and> get_command_by_line_number (T\<lparr>pc := 5\<rparr>) 5 = Some 4"
    by (intro conjI)
  then show ?thesis unfolding F_def T_def .
qed

text \<open>
  C8. An \<open>int\<close> declaration should reject a name longer than 10 characters. The test in
  \<open>parse_arg\<close> is \<open>strlen(token) > MAXVARNAME + 1\<close>, so the name \<open>abcdefghijk\<close> of 11
  characters passes it and is registered as a variable.
\<close>

theorem name_of_eleven_characters_is_declared:
  "length ''abcdefghijk'' = 11
   \<and> MAXVARNAME = 10
   \<and> map_option (\<lambda>rt. (intNamesLen rt, intNames rt 0))
        (built (build_runtime_from_file zeroed eleven_chars_file)) = Some (1, Some ''abcdefghijk'')"
  by code_simp

text \<open>
  C9. A declaration past \<open>MAXVAR\<close> variables should fail with a diagnostic, and the
  table should never hold more than \<open>MAXVAR\<close> names. \<open>parse_line\<close> stores the name at
  \<open>intNames[intNamesLen++]\<close> without a test. The first 1000 lines of the file
  \<open>0000 int v0000, 0001 int v0001, ...\<close> fill the table; line 1001, \<open>1000 int v1000\<close>,
  passes every check and is then written past the end of the array.
\<close>

theorem declaration_past_MAXVAR_writes_past_intNames:
  "map_option intNamesLen (built (parse_lines zeroed (new_runtime zeroed) (int_lines 1000))) = Some MAXVAR
   \<and> refused (build_runtime_from_file zeroed (int_lines 1001)) = Some (Undefined OutOfBoundsWrite)"
proof -
  have z: "ret_check_arguments zeroed \<noteq> - 1" by (simp add: zeroed_def)
  have "intNamesLen (new_runtime zeroed) = 0"
    "\<forall>i<0. intNames (new_runtime zeroed) i = Some (var_name i)" "0 + 1000 \<le> MAXVAR"
    by (simp_all add: new_runtime_def MAXVAR_def)
  from parse_lines_int_lines[OF z this] obtain rt where
    r: "parse_lines zeroed (new_runtime zeroed) (int_lines 1000) = Inr rt"
       "intNamesLen rt = 1000" "\<forall>i<1000. intNames rt i = Some (var_name i)"
    by (auto simp: int_lines_def)
  have fresh: "is_defined rt (Some (var_name 1000)) = Inr None"
    using is_defined_fresh[of rt 1000] r(2,3) by simp
  have last: "parse_line zeroed rt (int_line 1000) = Inl (Undefined OutOfBoundsWrite)"
    using parse_line_int_line[OF fresh z] r(2) by (simp add: MAXVAR_def)
  have "[0..<Suc 1000] = [0..<1000] @ [1000::nat]"
    by (rule upt_Suc_append) simp
  then have "[0..<1001] = [0..<1000] @ [1000::nat]"
    by simp
  then have e: "int_lines 1001 = int_lines 1000 @ [int_line 1000]"
    by (simp add: int_lines_def)
  have "parse_lines zeroed (new_runtime zeroed) (int_lines 1000 @ [int_line 1000])
          = Inl (Undefined OutOfBoundsWrite)"
    using r(1) last by (simp add: parse_lines_append int_line_not_blank)
  then have "parse_lines zeroed (new_runtime zeroed) (int_lines 1001) = Inl (Undefined OutOfBoundsWrite)"
    by (simp only: e)
  then have "refused (build_runtime_from_file zeroed (int_lines 1001)) = Some (Undefined OutOfBoundsWrite)"
    by (simp add: build_runtime_from_file_def refused_def)
  moreover have "map_option intNamesLen (built (parse_lines zeroed (new_runtime zeroed) (int_lines 1000))) = Some MAXVAR"
    using r(1,2) by (simp add: built_def MAXVAR_def)
  ultimately show ?thesis by blast
qed

text \<open>
  C10. The index \<open>next_idx\<close> from which the next \<open>pc\<close> is read should be below
  \<open>commandsLen\<close> at every step. In the file \<open>1 begin, 2 if 1 eq 2, 3 end\<close> the \<open>if\<close> is false, so
  \<open>next_idx\<close> is 3, the number of commands, and \<open>commands[3]\<close> is read: one element past the
  end of the array.
\<close>

theorem false_if_before_end_reads_past_commands:
  "commandsLen (loaded if_before_end_file) = 3
   \<and> map_option snd
        (case execute_command (passes 1 (loaded if_before_end_file)) 1 of
           Inr r \<Rightarrow> Some r | Inl e \<Rightarrow> None) = Some 3
   \<and> halted_with (main zeroed 10 if_before_end_file) = Some (Undefined OutOfBoundsRead)"
  by code_simp

end
